theory Spec2Isabelle
  imports Main "HOL-Library.Sublist"
begin

section \<open>Data model (models/User.js and the Token collection)\<close>

text \<open>
  Times are milliseconds since the epoch. The \<open>_id\<close> of a document is the field
  \<open>doc_id\<close>. The bookkeeping fields that \<open>timestamps: true\<close> lets the store maintain
  are not read or written by the controller and are left out.
\<close>

datatype Role = Admin | Editor | Viewer

record profileUpdate =
  field :: string
  oldValue :: string
  newValue :: string
  updatedAt :: int

record User =
  doc_id :: nat
  name :: string
  email :: string
  password :: string
  role :: Role
  emailVerified :: bool
  lastLoginAt :: "int option"
  isDeleted :: bool
  profileUpdates :: "profileUpdate list"

datatype TokenType = Refresh | Verify | Reset

text \<open>
  Modelled from the spec: models/Token.js is not among the sources. The fields are the
  ones the controller writes (\<open>user\<close>, \<open>tokenHash\<close>, \<open>type\<close>, \<open>expiresAt\<close>, \<open>revoked\<close>)
  and the ones the data model describes for refresh sessions (\<open>tokenId\<close>) and one-time
  tokens (\<open>used\<close>); \<open>revoked\<close> and \<open>used\<close> default to false.
\<close>

record Token =
  user :: nat
  tokenId :: "string option"
  tokenHash :: "string option"
  type :: TokenType
  expiresAt :: int
  revoked :: bool
  used :: bool

section \<open>Requests, environment, effects\<close>

text \<open>
  \<open>errors\<close> is what \<open>validationResult(req)\<close> holds, \<open>user_id\<close> is \<open>req.user.id\<close>, and the
  body fields are \<open>None\<close> when the property is absent from \<open>req.body\<close>.
\<close>

record req =
  errors :: "string list"
  user_id :: nat
  body_name :: "string option"
  body_email :: "string option"
  body_currentPassword :: "string option"
  body_newPassword :: "string option"

text \<open>The awaited calls into the store and into bcrypt; each may reject.\<close>

datatype op = OpFindById | OpFindOne | OpTokenCreate | OpSave | OpUpdateMany | OpCompare | OpHash

datatype error = Fault op | MissingArgs | TransportError string

text \<open>
  Everything the controller takes from outside the repository's sources: which awaited
  call rejects, the bcrypt functions, the helpers of utils/tokens.js (the value that the
  one call of \<open>genRandomToken()\<close> returns, and \<open>hashToken\<close>), the built-in
  \<open>encodeURIComponent\<close>, the two clock readings (\<open>new Date()\<close>, \<open>Date.now()\<close>), the
  environment variables, and the setters that the schema options \<open>trim\<close> and
  \<open>lowercase\<close> make the store apply to \<open>name\<close> and \<open>email\<close>.
\<close>

record env =
  fails :: "op \<Rightarrow> bool"
  bcrypt_compare :: "string \<Rightarrow> string \<Rightarrow> bool"
  bcrypt_hash :: "string \<Rightarrow> nat \<Rightarrow> string"
  genRandomToken :: string
  hashToken :: "string \<Rightarrow> string"
  encodeURIComponent :: "string \<Rightarrow> string"
  newDate :: int
  dateNow :: int
  BASE_URL :: "string option"
  EMAIL_FROM :: "string option"
  castName :: "string \<Rightarrow> string"
  castEmail :: "string \<Rightarrow> string"

text \<open>The argument of \<open>sendEmail\<close>, and the \<open>mailOptions\<close> object it builds.\<close>

record mail =
  to :: string
  subject :: string
  text_body :: string
  html :: string

record mailOptions =
  mo_from :: "string option"
  mo_to :: string
  mo_subject :: string
  mo_text :: string
  mo_html :: string

text \<open>
  A transporter is its \<open>sendMail\<close>: \<open>Inl\<close> is the error it throws, \<open>Inr\<close> the
  \<open>info.response\<close> of a delivery.
\<close>

type_synonym transport = "mailOptions \<Rightarrow> string + string"

datatype logval = LStr string | LMail mailOptions | LErr error

datatype body = Message string | Errors "string list"

datatype tokenFilter = ByUser nat | ByUserType nat TokenType

text \<open>The effects of a request, in program order.\<close>

datatype effect =
    ConsoleLog "logval list"
  | ConsoleError "logval list"
  | MailAttempt mailOptions
  | UserSaved User
  | TokenCreated Token
  | TokensUpdated tokenFilter
  | Responded nat body
  | NextCalled error

record state =
  users :: "User list"
  tokens :: "Token list"
  effects :: "effect list"

section \<open>Store operations\<close>

definition findById :: "nat \<Rightarrow> User list \<Rightarrow> User option" where
  "findById i us = find (\<lambda>u. doc_id u = i) us"

text \<open>\<open>User.findOne({ email })\<close>: the store casts the filter with the setters of the schema,
  as it does a value that is assigned.\<close>

definition findOne_email :: "env \<Rightarrow> string \<Rightarrow> User list \<Rightarrow> User option" where
  "findOne_email ev e us = find (\<lambda>u. email u = castEmail ev e) us"

definition save :: "User \<Rightarrow> state \<Rightarrow> state" where
  "save u st =
     st\<lparr>users := map (\<lambda>v. if doc_id v = doc_id u then u else v) (users st),
        effects := effects st @ [UserSaved u]\<rparr>"

definition Token_create :: "Token \<Rightarrow> state \<Rightarrow> state" where
  "Token_create t st =
     st\<lparr>tokens := tokens st @ [t], effects := effects st @ [TokenCreated t]\<rparr>"

fun matches :: "tokenFilter \<Rightarrow> Token \<Rightarrow> bool" where
  "matches (ByUser i) t = (user t = i)"
| "matches (ByUserType i k) t = (user t = i \<and> type t = k)"

text \<open>\<open>Token.updateMany(filter, { revoked: true })\<close>.\<close>

definition updateMany :: "tokenFilter \<Rightarrow> state \<Rightarrow> state" where
  "updateMany f st =
     st\<lparr>tokens := map (\<lambda>t. if matches f t then t\<lparr>revoked := True\<rparr> else t) (tokens st),
        effects := effects st @ [TokensUpdated f]\<rparr>"

definition respond :: "nat \<Rightarrow> body \<Rightarrow> state \<Rightarrow> state" where
  "respond c b st = st\<lparr>effects := effects st @ [Responded c b]\<rparr>"

definition next_err :: "error \<Rightarrow> state \<Rightarrow> state" where
  "next_err e st = st\<lparr>effects := effects st @ [NextCalled e]\<rparr>"

section \<open>utils/email.js\<close>

text \<open>The module-level variable: \<open>let transporter = null\<close>, assigned nowhere.\<close>

definition transporter :: "transport option" where
  "transporter = None"

definition show_env :: "string option \<Rightarrow> string" where
  "show_env v = (case v of None \<Rightarrow> ''undefined'' | Some s \<Rightarrow> s)"

text \<open>The body of the \<open>try\<close> block: the call of \<open>sendMail\<close> may throw.\<close>

definition sendEmail_try ::
  "transport \<Rightarrow> env \<Rightarrow> mail \<Rightarrow> effect list \<Rightarrow> (error + unit) \<times> effect list" where
  "sendEmail_try t ev m es =
     (let es1 = es @ [ConsoleLog [LStr ''Email settings:''],
                      ConsoleLog [LStr ''To:'', LStr (to m)],
                      ConsoleLog [LStr ''Subject:'', LStr (subject m)],
                      ConsoleLog [LStr ''Text:'', LStr (text_body m)],
                      ConsoleLog [LStr ''HTML:'', LStr (html m)]];
          opts = \<lparr>mo_from = EMAIL_FROM ev, mo_to = to m, mo_subject = subject m,
                  mo_text = text_body m, mo_html = html m\<rparr>;
          es2 = es1 @ [ConsoleLog [LStr ''Mail options:''], ConsoleLog [LMail opts],
                       MailAttempt opts]
      in case t opts of
           Inl err \<Rightarrow> (Inl (TransportError err), es2)
         | Inr info \<Rightarrow> (Inr (), es2 @ [ConsoleLog [LStr ''Email sent successfully:'', LStr info]]))"

text \<open>
  \<open>sendEmail\<close> with the current value of the module variable as its first argument.
  The result is \<open>Inl\<close> when the call throws.
\<close>

definition sendEmail ::
  "transport option \<Rightarrow> env \<Rightarrow> mail \<Rightarrow> effect list \<Rightarrow> (error + unit) \<times> effect list" where
  "sendEmail tr ev m es =
     (case tr of
        None \<Rightarrow> (Inr (), es @ [ConsoleError [LStr ''Error: Transporter is not initialized.'']])
      | Some t \<Rightarrow>
          (case sendEmail_try t ev m es of
             (Inl err, es') \<Rightarrow> (Inr (), es' @ [ConsoleError [LStr ''Error sending email:'', LErr err]])
           | (Inr u, es') \<Rightarrow> (Inr u, es')))"

section \<open>controllers/profileController.js\<close>

definition SALT_ROUNDS :: nat where
  "SALT_ROUNDS = 12"

text \<open>The name block of \<open>updateProfile\<close> (lines 32 to 35): the audit entries collected so
  far and the document after the assignment.\<close>

definition updateProfile_name :: "env \<Rightarrow> string option \<Rightarrow> User \<Rightarrow> profileUpdate list \<times> User" where
  "updateProfile_name ev nm user0 =
     (case nm of
        None \<Rightarrow> ([], user0)
      | Some n \<Rightarrow>
          if n \<noteq> [] \<and> n \<noteq> name user0
          then ([\<lparr>field = ''name'', oldValue = name user0, newValue = n,
                   updatedAt = newDate ev\<rparr>],
                user0\<lparr>name := castName ev n\<rparr>)
          else ([], user0))"

text \<open>
  The end of \<open>updateProfile\<close>, shared by its two paths: append the collected audit
  entries, save, answer.
\<close>

definition updateProfile_persist :: "env \<Rightarrow> profileUpdate list \<Rightarrow> User \<Rightarrow> state \<Rightarrow> state" where
  "updateProfile_persist ev updates u st =
     (let u' = (if updates \<noteq> [] then u\<lparr>profileUpdates := profileUpdates u @ updates\<rparr> else u)
      in if fails ev OpSave then next_err (Fault OpSave) st
         else respond 200 (Message ''Profile updated'') (save u' st))"

definition verifyUrl :: "env \<Rightarrow> string \<Rightarrow> string \<Rightarrow> string" where
  "verifyUrl ev rawToken e =
     show_env (BASE_URL ev) @ ''/api/auth/verify-email?token='' @ rawToken @ ''&email=''
       @ encodeURIComponent ev e"

definition verify_mail :: "env \<Rightarrow> string \<Rightarrow> string \<Rightarrow> mail" where
  "verify_mail ev rawToken e =
     \<lparr>to = e,
      subject = ''Verify your new email'',
      text_body = ''Please verify your new email: '' @ verifyUrl ev rawToken e,
      html = ''<p>Please verify your email by clicking <a href=\"'' @ verifyUrl ev rawToken e
               @ ''\">here</a></p>''\<rparr>"

text \<open>The email branch of \<open>updateProfile\<close> (lines 37 to 60), entered with \<open>email\<close> truthy
  and different from \<open>user.email\<close>.\<close>

definition updateProfile_email ::
  "transport option \<Rightarrow> env \<Rightarrow> string \<Rightarrow> profileUpdate list \<Rightarrow> User \<Rightarrow> state \<Rightarrow> state" where
  "updateProfile_email tr ev e updates u st =
     (if fails ev OpFindOne then next_err (Fault OpFindOne) st
      else if findOne_email ev e (users st) \<noteq> None
        then respond 400 (Message ''Email already in use'') st
      else
        let updates' = updates @ [\<lparr>field = ''email'', oldValue = email u, newValue = e,
                                    updatedAt = newDate ev\<rparr>];
            u' = u\<lparr>email := castEmail ev e, emailVerified := False\<rparr>;
            rawToken = genRandomToken ev;
            tokenHash' = hashToken ev rawToken;
            expires = dateNow ev + 1000 * 60 * 60 * 24
        in if fails ev OpTokenCreate then next_err (Fault OpTokenCreate) st
           else
             let st1 = Token_create \<lparr>user = doc_id u', tokenId = None, tokenHash = Some tokenHash',
                                      type = Verify, expiresAt = expires, revoked = False,
                                      used = False\<rparr> st
             in case sendEmail tr ev (verify_mail ev rawToken e) (effects st1) of
                  (Inl err, es) \<Rightarrow> next_err err (st1\<lparr>effects := es\<rparr>)
                | (Inr _, es) \<Rightarrow> updateProfile_persist ev updates' u' (st1\<lparr>effects := es\<rparr>))"

definition updateProfile :: "transport option \<Rightarrow> env \<Rightarrow> req \<Rightarrow> state \<Rightarrow> state" where
  "updateProfile tr ev rq st =
     (if errors rq \<noteq> [] then respond 400 (Errors (errors rq)) st
      else if fails ev OpFindById then next_err (Fault OpFindById) st
      else case findById (user_id rq) (users st) of
        None \<Rightarrow> respond 404 (Message ''User not found'') st
      | Some user0 \<Rightarrow>
          let (updates, user1) = updateProfile_name ev (body_name rq) user0
          in (case body_email rq of
                None \<Rightarrow> updateProfile_persist ev updates user1 st
              | Some e \<Rightarrow>
                  if e \<noteq> [] \<and> e \<noteq> email user1
                  then updateProfile_email tr ev e updates user1 st
                  else updateProfile_persist ev updates user1 st))"

definition password_mail :: "User \<Rightarrow> mail" where
  "password_mail u =
     \<lparr>to = email u,
      subject = ''Your password was changed'',
      text_body = ''Hi '' @ name u @ '','' @ [CHR 0x0A, CHR 0x0A]
        @ ''Your account password was changed. If this was not you, please contact support immediately.'',
      html = ''<p>Hi '' @ name u
        @ '',</p><p>Your account password was changed. If this was not you, please contact support immediately.</p>''\<rparr>"

text \<open>Lines 85 to 94 of \<open>changePassword\<close>: the document with the new hash assigned and
  the audit entry appended.\<close>

definition with_new_password :: "env \<Rightarrow> string \<Rightarrow> User \<Rightarrow> User" where
  "with_new_password ev np u =
     (let hashed = bcrypt_hash ev np SALT_ROUNDS;
          u1 = u\<lparr>password := hashed\<rparr>
      in u1\<lparr>profileUpdates := profileUpdates u1 @
              [\<lparr>field = ''password'', oldValue = ''****'', newValue = ''****'',
                updatedAt = newDate ev\<rparr>]\<rparr>)"

text \<open>\<open>changePassword\<close> from the hashing of the new password on (lines 85 to 109).\<close>

definition changePassword_apply ::
  "transport option \<Rightarrow> env \<Rightarrow> string option \<Rightarrow> User \<Rightarrow> state \<Rightarrow> state" where
  "changePassword_apply tr ev newPassword u st =
     (case newPassword of
        None \<Rightarrow> next_err MissingArgs st
      | Some np \<Rightarrow>
          if fails ev OpHash then next_err (Fault OpHash) st
          else
            let u2 = with_new_password ev np u
            in if fails ev OpSave then next_err (Fault OpSave) st
               else
                 let st1 = save u2 st
                 in if fails ev OpUpdateMany then next_err (Fault OpUpdateMany) st1
                    else
                      let st2 = updateMany (ByUserType (doc_id u2) Refresh) st1
                      in (case sendEmail tr ev (password_mail u2) (effects st2) of
                            (Inl err, es) \<Rightarrow> next_err err (st2\<lparr>effects := es\<rparr>)
                          | (Inr _, es) \<Rightarrow>
                              respond 200 (Message ''Password updated'') (st2\<lparr>effects := es\<rparr>)))"

definition changePassword :: "transport option \<Rightarrow> env \<Rightarrow> req \<Rightarrow> state \<Rightarrow> state" where
  "changePassword tr ev rq st =
     (if errors rq \<noteq> [] then respond 400 (Errors (errors rq)) st
      else if fails ev OpFindById then next_err (Fault OpFindById) st
      else case findById (user_id rq) (users st) of
        None \<Rightarrow> respond 404 (Message ''User not found'') st
      | Some u \<Rightarrow>
          if isDeleted u then respond 403 (Message ''Account deactivated'') st
          else (case body_currentPassword rq of
            None \<Rightarrow> next_err MissingArgs st
          | Some cp \<Rightarrow>
              if fails ev OpCompare then next_err (Fault OpCompare) st
              else if \<not> bcrypt_compare ev cp (password u)
                then respond 400 (Message ''Current password is incorrect'') st
              else changePassword_apply tr ev (body_newPassword rq) u st))"

definition deactivated_mail :: "User \<Rightarrow> mail" where
  "deactivated_mail u =
     \<lparr>to = email u,
      subject = ''Account deactivated'',
      text_body = ''Hi '' @ name u @ '','' @ [CHR 0x0A, CHR 0x0A]
        @ ''Your account was deactivated. To restore, contact admin or use the restore endpoint if available.'',
      html = ''<p>Hi '' @ name u @ '',</p><p>Your account was deactivated.</p>''\<rparr>"

definition softDeleteProfile :: "transport option \<Rightarrow> env \<Rightarrow> req \<Rightarrow> state \<Rightarrow> state" where
  "softDeleteProfile tr ev rq st =
     (if fails ev OpFindById then next_err (Fault OpFindById) st
      else case findById (user_id rq) (users st) of
        None \<Rightarrow> respond 404 (Message ''User not found'') st
      | Some u \<Rightarrow>
          if isDeleted u then respond 400 (Message ''Account already deactivated'') st
          else
            let u1 = u\<lparr>isDeleted := True\<rparr>
            in if fails ev OpSave then next_err (Fault OpSave) st
               else
                 let st1 = save u1 st
                 in if fails ev OpUpdateMany then next_err (Fault OpUpdateMany) st1
                    else
                      let st2 = updateMany (ByUser (doc_id u1)) st1
                      in (case sendEmail tr ev (deactivated_mail u1) (effects st2) of
                            (Inl err, es) \<Rightarrow> next_err err (st2\<lparr>effects := es\<rparr>)
                          | (Inr _, es) \<Rightarrow>
                              respond 200 (Message ''Account deactivated'') (st2\<lparr>effects := es\<rparr>)))"

section \<open>Observations on a run\<close>

text \<open>How a request ended: the last effect, a response or a call of \<open>next(err)\<close>.\<close>

definition outcome :: "state \<Rightarrow> effect option" where
  "outcome st = (if effects st = [] then None else Some (last (effects st)))"

fun is_response :: "effect \<Rightarrow> bool" where
  "is_response (Responded c b) = True"
| "is_response e = False"

fun is_mail :: "effect \<Rightarrow> bool" where
  "is_mail (MailAttempt m) = True"
| "is_mail e = False"

text \<open>The effects of one call of \<open>sendEmail\<close>.\<close>

definition notify_effects :: "transport option \<Rightarrow> env \<Rightarrow> mail \<Rightarrow> effect list" where
  "notify_effects tr ev m = snd (sendEmail tr ev m [])"

section \<open>A concrete store and concrete requests\<close>

definition env0 :: env where
  "env0 = \<lparr>fails = (\<lambda>_. False),
           bcrypt_compare = (\<lambda>p h. h = ''$2b$'' @ p),
           bcrypt_hash = (\<lambda>p n. ''$2b$'' @ p),
           genRandomToken = ''5ecr3t'',
           hashToken = (\<lambda>s. ''sha256:'' @ s),
           encodeURIComponent = (\<lambda>s. concat (map (\<lambda>c. if c = CHR ''@'' then ''%40'' else [c]) s)),
           newDate = 1700000000000,
           dateNow = 1700000000005,
           BASE_URL = Some ''http://localhost:4000'',
           EMAIL_FROM = Some ''noreply@x.com'',
           castName = (\<lambda>s. s),
           castEmail = (\<lambda>s. s)\<rparr>"

definition alice :: User where
  "alice = \<lparr>doc_id = 1, name = ''Alice'', email = ''a@x.com'', password = ''$2b$OldPass123!'',
            role = Viewer, emailVerified = True, lastLoginAt = None, isDeleted = False,
            profileUpdates = []\<rparr>"

definition bob :: User where
  "bob = \<lparr>doc_id = 2, name = ''Bob'', email = ''b@x.com'', password = ''$2b$BobPass123!'',
          role = Editor, emailVerified = True, lastLoginAt = None, isDeleted = False,
          profileUpdates = []\<rparr>"

definition refresh_token :: "nat \<Rightarrow> string \<Rightarrow> Token" where
  "refresh_token i k = \<lparr>user = i, tokenId = Some k, tokenHash = None, type = Refresh,
                         expiresAt = 1700600000000, revoked = False, used = False\<rparr>"

definition reset_token :: "nat \<Rightarrow> string \<Rightarrow> Token" where
  "reset_token i h = \<lparr>user = i, tokenId = None, tokenHash = Some h, type = Reset,
                       expiresAt = 1700003600000, revoked = False, used = False\<rparr>"

text \<open>Alice has two active refresh sessions and a pending reset token, Bob one session.\<close>

definition st0 :: state where
  "st0 = \<lparr>users = [alice, bob],
          tokens = [refresh_token 1 ''R1'', refresh_token 1 ''R2'', reset_token 1 ''sha256:x'',
                    refresh_token 2 ''R3''],
          effects = []\<rparr>"

definition password_req :: req where
  "password_req = \<lparr>errors = [], user_id = 1, body_name = None, body_email = None,
                   body_currentPassword = Some ''OldPass123!'',
                   body_newPassword = Some ''NewPass456!''\<rparr>"

definition wrong_password_req :: req where
  "wrong_password_req = \<lparr>errors = [], user_id = 1, body_name = None, body_email = None,
                   body_currentPassword = Some ''Mistaken123!'',
                   body_newPassword = Some ''NewPass456!''\<rparr>"

definition email_req :: req where
  "email_req = \<lparr>errors = [], user_id = 1, body_name = Some ''Alicia'',
                body_email = Some ''alicia@x.com'', body_currentPassword = None,
                body_newPassword = None\<rparr>"

definition taken_email_req :: req where
  "taken_email_req = \<lparr>errors = [], user_id = 1, body_name = Some ''Alicia'',
                body_email = Some ''b@x.com'', body_currentPassword = None,
                body_newPassword = None\<rparr>"

definition delete_req :: req where
  "delete_req = \<lparr>errors = [], user_id = 1, body_name = None, body_email = None,
                 body_currentPassword = None, body_newPassword = None\<rparr>"

text \<open>A transporter whose \<open>sendMail\<close> always delivers.\<close>

definition working_transport :: transport where
  "working_transport = (\<lambda>_. Inr ''250 OK'')"

text \<open>A transporter whose \<open>sendMail\<close> always throws.\<close>

definition broken_transport :: transport where
  "broken_transport = (\<lambda>_. Inl ''ECONNREFUSED'')"

section \<open>Auxiliary facts\<close>

lemmas step_defs = respond_def next_err_def save_def updateMany_def Token_create_def

lemmas eval_defs = step_defs outcome_def Let_def findById_def findOne_email_def
  sendEmail_def sendEmail_try_def transporter_def notify_effects_def show_env_def
  SALT_ROUNDS_def env0_def alice_def bob_def refresh_token_def reset_token_def st0_def
  broken_transport_def working_transport_def

lemma findById_SomeD: "findById i us = Some u \<Longrightarrow> u \<in> set us \<and> doc_id u = i"
  unfolding findById_def by (auto simp: find_Some_iff)

lemma findById_replace:
  "findById i us = Some u \<Longrightarrow> doc_id u' = i \<Longrightarrow>
   findById i (map (\<lambda>v. if doc_id v = doc_id u' then u' else v) us) = Some u'"
  unfolding findById_def by (induction us) (auto split: if_splits)

lemma findById_replace_other:
  "doc_id u' \<noteq> j \<Longrightarrow>
   findById j (map (\<lambda>v. if doc_id v = doc_id u' then u' else v) us) = findById j us"
  unfolding findById_def by (induction us) auto

lemma findById_map_replace:
  assumes "findById i us = Some v"
  shows "findById i (map (\<lambda>w. if doc_id w = doc_id u' then u' else w) us)
           = Some (if doc_id u' = i then u' else v)"
proof (cases "doc_id u' = i")
  case True
  with findById_replace [OF assms True] show ?thesis by simp
next
  case False
  with findById_replace_other [OF False, of us] assms show ?thesis by simp
qed

text \<open>What a request may do to the stored audit logs: nothing, or replace the caller's
  document by one whose log is the old one followed by entries that satisfy \<open>Q\<close>.\<close>

lemma audit_lift:
  assumes v: "findById i us = Some v"
    and step: "us' = us \<or> (\<exists>c c' ups. findById j us = Some c \<and> doc_id c' = j
        \<and> us' = map (\<lambda>w. if doc_id w = doc_id c' then c' else w) us
        \<and> profileUpdates c' = profileUpdates c @ ups \<and> (\<forall>p \<in> set ups. Q c p))"
  shows "\<exists>v' ups. findById i us' = Some v' \<and> profileUpdates v' = profileUpdates v @ ups
      \<and> (\<forall>p \<in> set ups. Q v p)"
  using step
proof (elim disjE exE conjE)
  assume "us' = us"
  with v have "findById i us' = Some v \<and> profileUpdates v = profileUpdates v @ []
      \<and> (\<forall>p \<in> set []. Q v p)" by simp
  then show ?thesis by blast
next
  fix c c' ups
  assume c: "findById j us = Some c" and id: "doc_id c' = j"
    and us': "us' = map (\<lambda>w. if doc_id w = doc_id c' then c' else w) us"
    and log: "profileUpdates c' = profileUpdates c @ ups" and q: "\<forall>p \<in> set ups. Q c p"
  show ?thesis
  proof (cases "j = i")
    case True
    with c v have "c = v" by simp
    with True id us' log q findById_map_replace [OF v, of c']
    have "findById i us' = Some c' \<and> profileUpdates c' = profileUpdates v @ ups
      \<and> (\<forall>p \<in> set ups. Q v p)" by simp
    then show ?thesis by blast
  next
    case False
    with id us' findById_map_replace [OF v, of c']
    have "findById i us' = Some v \<and> profileUpdates v = profileUpdates v @ []
      \<and> (\<forall>p \<in> set []. Q v p)" by simp
    then show ?thesis by blast
  qed
qed

lemma sendEmail_returns: "fst (sendEmail tr ev m es) = Inr ()"
  unfolding sendEmail_def sendEmail_try_def
  by (simp add: Let_def split: option.splits sum.splits prod.splits)

lemma sendEmail_appends: "snd (sendEmail tr ev m es) = es @ notify_effects tr ev m"
  unfolding notify_effects_def sendEmail_def sendEmail_try_def
  by (simp add: Let_def split: option.splits sum.splits prod.splits)

lemma sendEmail_case:
  "(case sendEmail tr ev m es of (Inl err, es') \<Rightarrow> A err es' | (Inr x, es') \<Rightarrow> B x es')
     = B () (es @ notify_effects tr ev m)"
  using sendEmail_returns [of tr ev m es] sendEmail_appends [of tr ev m es]
  by (cases "sendEmail tr ev m es") (auto split: sum.splits)

lemma notify_no_response: "e \<in> set (notify_effects tr ev m) \<Longrightarrow> \<not> is_response e"
  unfolding notify_effects_def sendEmail_def sendEmail_try_def
  by (auto simp: Let_def split: option.splits sum.splits prod.splits)

lemma notify_uninitialized:
  "notify_effects None ev m = [ConsoleError [LStr ''Error: Transporter is not initialized.'']]"
  unfolding notify_effects_def sendEmail_def by simp

lemma outcome_respond: "outcome (respond c b st) = Some (Responded c b)"
  by (simp add: outcome_def respond_def)

lemma outcome_next_err: "outcome (next_err e st) = Some (NextCalled e)"
  by (simp add: outcome_def next_err_def)

subsection \<open>changePassword\<close>

lemma doc_id_with_new_password [simp]: "doc_id (with_new_password ev np u) = doc_id u"
  by (simp add: with_new_password_def)

lemma changePassword_apply_ok:
  assumes "\<not> fails ev OpHash" "\<not> fails ev OpSave" "\<not> fails ev OpUpdateMany"
  shows "changePassword_apply tr ev (Some np) u st =
    respond 200 (Message ''Password updated'')
      ((updateMany (ByUserType (doc_id u) Refresh) (save (with_new_password ev np u) st))
       \<lparr>effects := effects st @
          [UserSaved (with_new_password ev np u), TokensUpdated (ByUserType (doc_id u) Refresh)]
          @ notify_effects tr ev (password_mail (with_new_password ev np u))\<rparr>)"
  using assms unfolding changePassword_apply_def
  by (simp add: step_defs Let_def sendEmail_case)

lemma changePassword_apply_success:
  assumes "outcome (changePassword_apply tr ev npo u st) = Some (Responded 200 b)"
  shows "\<exists>np. npo = Some np \<and> \<not> fails ev OpHash \<and> \<not> fails ev OpSave \<and> \<not> fails ev OpUpdateMany
     \<and> b = Message ''Password updated''"
  using assms unfolding changePassword_apply_def
  by (simp add: step_defs Let_def sendEmail_case outcome_def split: if_splits option.splits)

lemma changePassword_success:
  assumes "outcome (changePassword tr ev rq st) = Some (Responded 200 b)"
  shows "\<exists>u cp. errors rq = [] \<and> \<not> fails ev OpFindById \<and> findById (user_id rq) (users st) = Some u
    \<and> \<not> isDeleted u \<and> body_currentPassword rq = Some cp \<and> \<not> fails ev OpCompare
    \<and> bcrypt_compare ev cp (password u)
    \<and> changePassword tr ev rq st = changePassword_apply tr ev (body_newPassword rq) u st"
  using assms unfolding changePassword_def
  by (auto simp: step_defs outcome_def split: if_splits option.splits)

lemma changePassword_apply_error:
  assumes "outcome (changePassword_apply tr ev npo u st) = Some (Responded c b)"
  shows "c = 200"
  using assms unfolding changePassword_apply_def
  by (simp add: Let_def sendEmail_case outcome_respond outcome_next_err split: if_splits option.splits)

lemma changePassword_ok:
  assumes "errors rq = []" "\<not> fails ev OpFindById" "findById (user_id rq) (users st) = Some u"
    "\<not> isDeleted u" "body_currentPassword rq = Some cp" "\<not> fails ev OpCompare"
    "bcrypt_compare ev cp (password u)" "body_newPassword rq = Some np"
    "\<not> fails ev OpHash" "\<not> fails ev OpSave" "\<not> fails ev OpUpdateMany"
  shows "changePassword tr ev rq st =
    respond 200 (Message ''Password updated'')
      ((updateMany (ByUserType (doc_id u) Refresh) (save (with_new_password ev np u) st))
       \<lparr>effects := effects st @
          [UserSaved (with_new_password ev np u), TokensUpdated (ByUserType (doc_id u) Refresh)]
          @ notify_effects tr ev (password_mail (with_new_password ev np u))\<rparr>)"
  using assms changePassword_apply_ok [of ev tr np u st] unfolding changePassword_def
  by simp

lemma changePassword_success_state:
  assumes "outcome (changePassword tr ev rq st) = Some (Responded 200 b)"
  shows "\<exists>u np. findById (user_id rq) (users st) = Some u \<and> b = Message ''Password updated'' \<and>
    changePassword tr ev rq st =
    respond 200 (Message ''Password updated'')
      ((updateMany (ByUserType (doc_id u) Refresh) (save (with_new_password ev np u) st))
       \<lparr>effects := effects st @
          [UserSaved (with_new_password ev np u), TokensUpdated (ByUserType (doc_id u) Refresh)]
          @ notify_effects tr ev (password_mail (with_new_password ev np u))\<rparr>)"
proof -
  from changePassword_success [OF assms] obtain u cp where
    u: "findById (user_id rq) (users st) = Some u"
    and eq: "changePassword tr ev rq st = changePassword_apply tr ev (body_newPassword rq) u st"
    by blast
  from assms eq have "outcome (changePassword_apply tr ev (body_newPassword rq) u st)
      = Some (Responded 200 b)" by simp
  from changePassword_apply_success [OF this] obtain np where
    np: "body_newPassword rq = Some np"
    and ok: "\<not> fails ev OpHash" "\<not> fails ev OpSave" "\<not> fails ev OpUpdateMany"
    and b: "b = Message ''Password updated''"
    by blast
  show ?thesis
    using u b unfolding eq np changePassword_apply_ok [OF ok] by blast
qed

lemma changePassword_cases:
  "users (changePassword tr ev rq st) = users st \<or>
   (\<exists>c. findById (user_id rq) (users st) = Some c
      \<and> changePassword tr ev rq st = changePassword_apply tr ev (body_newPassword rq) c st)"
  unfolding changePassword_def
  by (simp add: respond_def next_err_def split: option.splits)

lemma changePassword_apply_users:
  "users (changePassword_apply tr ev npo c st) = users st \<or>
   (\<exists>np. npo = Some np \<and> users (changePassword_apply tr ev npo c st)
      = map (\<lambda>w. if doc_id w = doc_id (with_new_password ev np c) then with_new_password ev np c else w)
          (users st))"
  unfolding changePassword_apply_def
  by (simp add: step_defs Let_def sendEmail_case split: option.splits)

lemma changePassword_users:
  "users (changePassword tr ev rq st) = users st \<or>
   (\<exists>c c' ups. findById (user_id rq) (users st) = Some c \<and> doc_id c' = user_id rq
      \<and> users (changePassword tr ev rq st) = map (\<lambda>w. if doc_id w = doc_id c' then c' else w) (users st)
      \<and> profileUpdates c' = profileUpdates c @ ups
      \<and> (\<forall>p \<in> set ups. p = \<lparr>field = ''password'', oldValue = ''****'', newValue = ''****'',
                               updatedAt = newDate ev\<rparr>))"
proof (cases "users (changePassword tr ev rq st) = users st")
  case True
  then show ?thesis by simp
next
  case False
  with changePassword_cases [of tr ev rq st] obtain c where
    c: "findById (user_id rq) (users st) = Some c"
    and eq: "changePassword tr ev rq st = changePassword_apply tr ev (body_newPassword rq) c st"
    by auto
  have id: "doc_id c = user_id rq" using findById_SomeD [OF c] by simp
  from False changePassword_apply_users [of tr ev "body_newPassword rq" c st]
  obtain np where
    us: "users (changePassword tr ev rq st)
       = map (\<lambda>w. if doc_id w = doc_id (with_new_password ev np c) then with_new_password ev np c else w)
           (users st)"
    unfolding eq by blast
  have "doc_id (with_new_password ev np c) = user_id rq"
    "profileUpdates (with_new_password ev np c) = profileUpdates c @
       [\<lparr>field = ''password'', oldValue = ''****'', newValue = ''****'', updatedAt = newDate ev\<rparr>]"
    "\<forall>p \<in> set [\<lparr>field = ''password'', oldValue = ''****'', newValue = ''****'', updatedAt = newDate ev\<rparr>].
        p = \<lparr>field = ''password'', oldValue = ''****'', newValue = ''****'', updatedAt = newDate ev\<rparr>"
    by (simp_all add: id with_new_password_def)
  with c us show ?thesis by blast
qed

lemma changePassword_no_mail:
  "filter is_mail (effects (changePassword None ev rq st)) = filter is_mail (effects st)"
  unfolding changePassword_def changePassword_apply_def
  by (simp add: step_defs Let_def sendEmail_case notify_uninitialized split: option.splits)

lemma changePassword_eval:
  "changePassword transporter env0 password_req st0 =
     \<lparr>users = [alice\<lparr>password := ''$2b$NewPass456!'',
                     profileUpdates := [\<lparr>field = ''password'', oldValue = ''****'',
                        newValue = ''****'', updatedAt = 1700000000000\<rparr>]\<rparr>, bob],
      tokens = [(refresh_token 1 ''R1'')\<lparr>revoked := True\<rparr>,
                (refresh_token 1 ''R2'')\<lparr>revoked := True\<rparr>,
                reset_token 1 ''sha256:x'', refresh_token 2 ''R3''],
      effects = [UserSaved (alice\<lparr>password := ''$2b$NewPass456!'',
                     profileUpdates := [\<lparr>field = ''password'', oldValue = ''****'',
                        newValue = ''****'', updatedAt = 1700000000000\<rparr>]\<rparr>),
                 TokensUpdated (ByUserType 1 Refresh),
                 ConsoleError [LStr ''Error: Transporter is not initialized.''],
                 Responded 200 (Message ''Password updated'')]\<rparr>"
  by (simp add: changePassword_def changePassword_apply_def with_new_password_def
      password_req_def password_mail_def eval_defs)

subsection \<open>softDeleteProfile\<close>

lemma softDeleteProfile_ok:
  assumes "\<not> fails ev OpFindById" "findById (user_id rq) (users st) = Some u" "\<not> isDeleted u"
    "\<not> fails ev OpSave" "\<not> fails ev OpUpdateMany"
  shows "softDeleteProfile tr ev rq st =
    respond 200 (Message ''Account deactivated'')
      ((updateMany (ByUser (doc_id u)) (save (u\<lparr>isDeleted := True\<rparr>) st))
       \<lparr>effects := effects st @ [UserSaved (u\<lparr>isDeleted := True\<rparr>), TokensUpdated (ByUser (doc_id u))]
          @ notify_effects tr ev (deactivated_mail (u\<lparr>isDeleted := True\<rparr>))\<rparr>)"
  using assms unfolding softDeleteProfile_def
  by (simp add: step_defs Let_def sendEmail_case)

lemma softDeleteProfile_success:
  assumes "outcome (softDeleteProfile tr ev rq st) = Some (Responded 200 b)"
  shows "\<exists>u. \<not> fails ev OpFindById \<and> findById (user_id rq) (users st) = Some u \<and> \<not> isDeleted u
    \<and> \<not> fails ev OpSave \<and> \<not> fails ev OpUpdateMany \<and> b = Message ''Account deactivated''"
  using assms unfolding softDeleteProfile_def
  by (auto simp: Let_def sendEmail_case outcome_respond outcome_next_err split: if_splits option.splits)

lemma softDeleteProfile_no_mail:
  "filter is_mail (effects (softDeleteProfile None ev rq st)) = filter is_mail (effects st)"
  unfolding softDeleteProfile_def
  by (simp add: step_defs Let_def sendEmail_case notify_uninitialized split: option.splits)

lemma softDeleteProfile_eval:
  "softDeleteProfile transporter env0 delete_req st0 =
     \<lparr>users = [alice\<lparr>isDeleted := True\<rparr>, bob],
      tokens = [(refresh_token 1 ''R1'')\<lparr>revoked := True\<rparr>,
                (refresh_token 1 ''R2'')\<lparr>revoked := True\<rparr>,
                (reset_token 1 ''sha256:x'')\<lparr>revoked := True\<rparr>, refresh_token 2 ''R3''],
      effects = [UserSaved (alice\<lparr>isDeleted := True\<rparr>),
                 TokensUpdated (ByUser 1),
                 ConsoleError [LStr ''Error: Transporter is not initialized.''],
                 Responded 200 (Message ''Account deactivated'')]\<rparr>"
  by (simp add: softDeleteProfile_def delete_req_def deactivated_mail_def eval_defs)

subsection \<open>updateProfile\<close>

lemma updateProfile_name_fields [simp]:
  "doc_id (snd (updateProfile_name ev nm u)) = doc_id u"
  "email (snd (updateProfile_name ev nm u)) = email u"
  "profileUpdates (snd (updateProfile_name ev nm u)) = profileUpdates u"
  by (simp_all add: updateProfile_name_def split: option.splits)

lemma updateProfile_name_entries:
  "p \<in> set (fst (updateProfile_name ev nm u)) \<Longrightarrow>
     field p = ''name'' \<and> oldValue p = name u \<and> nm = Some (newValue p) \<and> newValue p \<noteq> oldValue p
     \<and> updatedAt p = newDate ev"
  by (auto simp: updateProfile_name_def split: option.splits if_splits)

lemma updateProfile_unfold:
  assumes "errors rq = []" "\<not> fails ev OpFindById" "findById (user_id rq) (users st) = Some u"
  shows "updateProfile tr ev rq st =
    (case body_email rq of
       None \<Rightarrow> updateProfile_persist ev (fst (updateProfile_name ev (body_name rq) u))
                 (snd (updateProfile_name ev (body_name rq) u)) st
     | Some e \<Rightarrow>
         if e \<noteq> [] \<and> e \<noteq> email u
         then updateProfile_email tr ev e (fst (updateProfile_name ev (body_name rq) u))
                 (snd (updateProfile_name ev (body_name rq) u)) st
         else updateProfile_persist ev (fst (updateProfile_name ev (body_name rq) u))
                 (snd (updateProfile_name ev (body_name rq) u)) st)"
  using assms unfolding updateProfile_def
  by (simp add: case_prod_unfold Let_def split: option.splits)

lemma updateProfile_early:
  assumes "\<not> (errors rq = [] \<and> \<not> fails ev OpFindById \<and> findById (user_id rq) (users st) \<noteq> None)"
  shows "\<exists>e. updateProfile tr ev rq st = st\<lparr>effects := effects st @ [e]\<rparr>
     \<and> e \<noteq> Responded 200 (Message ''Profile updated'') \<and> \<not> is_mail e"
  using assms unfolding updateProfile_def
  by (auto simp: respond_def next_err_def split: option.splits)

lemma updateProfile_persist_cases:
  "updateProfile_persist ev ups u1 s =
     (if fails ev OpSave then next_err (Fault OpSave) s
      else respond 200 (Message ''Profile updated'')
        (save (u1\<lparr>profileUpdates := profileUpdates u1 @ ups\<rparr>) s))"
  unfolding updateProfile_persist_def by (simp add: Let_def)

lemma updateProfile_email_cases:
  "updateProfile_email tr ev e ups u1 st =
     (if fails ev OpFindOne then next_err (Fault OpFindOne) st
      else if findOne_email ev e (users st) \<noteq> None
        then respond 400 (Message ''Email already in use'') st
      else if fails ev OpTokenCreate then next_err (Fault OpTokenCreate) st
      else updateProfile_persist ev
         (ups @ [\<lparr>field = ''email'', oldValue = email u1, newValue = e, updatedAt = newDate ev\<rparr>])
         (u1\<lparr>email := castEmail ev e, emailVerified := False\<rparr>)
         (st\<lparr>tokens := tokens st @
               [\<lparr>user = doc_id u1, tokenId = None,
                 tokenHash = Some (hashToken ev (genRandomToken ev)), type = Verify,
                 expiresAt = dateNow ev + 1000 * 60 * 60 * 24, revoked = False, used = False\<rparr>],
             effects := effects st @
               [TokenCreated \<lparr>user = doc_id u1, tokenId = None,
                 tokenHash = Some (hashToken ev (genRandomToken ev)), type = Verify,
                 expiresAt = dateNow ev + 1000 * 60 * 60 * 24, revoked = False, used = False\<rparr>]
               @ notify_effects tr ev (verify_mail ev (genRandomToken ev) e)\<rparr>))"
  unfolding updateProfile_email_def
  by (simp add: Let_def sendEmail_case Token_create_def)


lemma updateProfile_persist_users_tokens:
  "tokens (updateProfile_persist ev ups u1 s) = tokens s"
  "users (updateProfile_persist ev ups u1 s) = users s \<or>
   users (updateProfile_persist ev ups u1 s) =
     map (\<lambda>v. if doc_id v = doc_id u1 then u1\<lparr>profileUpdates := profileUpdates u1 @ ups\<rparr> else v) (users s)"
  unfolding updateProfile_persist_cases by (simp_all add: step_defs)

lemma updateProfile_tokens:
  "tokens (updateProfile tr ev rq st) = tokens st \<or>
   tokens (updateProfile tr ev rq st) = tokens st @
     [\<lparr>user = user_id rq, tokenId = None, tokenHash = Some (hashToken ev (genRandomToken ev)),
       type = Verify, expiresAt = dateNow ev + 1000 * 60 * 60 * 24, revoked = False, used = False\<rparr>]"
proof (cases "errors rq = [] \<and> \<not> fails ev OpFindById \<and> findById (user_id rq) (users st) \<noteq> None")
  case False
  from updateProfile_early [OF this, of tr] show ?thesis by auto
next
  case True
  then obtain u where u: "findById (user_id rq) (users st) = Some u" by auto
  have id: "doc_id u = user_id rq" using findById_SomeD [OF u] by simp
  from True have "errors rq = []" "\<not> fails ev OpFindById" by simp_all
  note eq = updateProfile_unfold [OF this u, of tr]
  show ?thesis
    unfolding eq updateProfile_email_cases
    by (simp add: respond_def next_err_def updateProfile_persist_users_tokens id split: option.splits)
qed

lemma updateProfile_email_success:
  assumes "outcome (updateProfile_email tr ev e ups u1 st) = Some (Responded 200 b)"
  shows "\<not> fails ev OpFindOne \<and> findOne_email ev e (users st) = None \<and> \<not> fails ev OpTokenCreate
     \<and> \<not> fails ev OpSave"
  using assms unfolding updateProfile_email_cases updateProfile_persist_cases
  by (simp add: outcome_respond outcome_next_err split: if_splits)

lemma updateProfile_users:
  "users (updateProfile tr ev rq st) = users st \<or>
   (\<exists>c c' ups. findById (user_id rq) (users st) = Some c \<and> doc_id c' = user_id rq
      \<and> users (updateProfile tr ev rq st) = map (\<lambda>w. if doc_id w = doc_id c' then c' else w) (users st)
      \<and> profileUpdates c' = profileUpdates c @ ups
      \<and> (\<forall>p \<in> set ups. updatedAt p = newDate ev \<and> newValue p \<noteq> oldValue p
            \<and> (field p = ''name'' \<and> oldValue p = name c \<and> body_name rq = Some (newValue p)
               \<or> field p = ''email'' \<and> oldValue p = email c \<and> body_email rq = Some (newValue p))))"
proof (cases "errors rq = [] \<and> \<not> fails ev OpFindById \<and> findById (user_id rq) (users st) \<noteq> None")
  case False
  from updateProfile_early [OF this, of tr] show ?thesis by auto
next
  case True
  then obtain c where c: "findById (user_id rq) (users st) = Some c" by auto
  have id: "doc_id c = user_id rq" using findById_SomeD [OF c] by simp
  from True have "errors rq = []" "\<not> fails ev OpFindById" by simp_all
  note eq = updateProfile_unfold [OF this c, of tr]
  let ?nm = "updateProfile_name ev (body_name rq) c"
  let ?Q = "\<lambda>p. updatedAt p = newDate ev \<and> newValue p \<noteq> oldValue p
            \<and> (field p = ''name'' \<and> oldValue p = name c \<and> body_name rq = Some (newValue p)
               \<or> field p = ''email'' \<and> oldValue p = email c \<and> body_email rq = Some (newValue p))"
  have nameQ: "\<forall>p \<in> set (fst ?nm). ?Q p"
    using updateProfile_name_entries [of _ ev "body_name rq" c] by blast
  show ?thesis
  proof (cases "users (updateProfile tr ev rq st) = users st")
    case True
    then show ?thesis by simp
  next
    case changed: False
    show ?thesis
    proof (cases "\<exists>e. body_email rq = Some e \<and> e \<noteq> [] \<and> e \<noteq> email c")
      case False
      then have eq': "updateProfile tr ev rq st = updateProfile_persist ev (fst ?nm) (snd ?nm) st"
        unfolding eq by (auto split: option.splits)
      let ?c' = "(snd ?nm)\<lparr>profileUpdates := profileUpdates (snd ?nm) @ fst ?nm\<rparr>"
      from changed updateProfile_persist_users_tokens(2) [of ev "fst ?nm" "snd ?nm" st]
      have "users (updateProfile tr ev rq st)
          = map (\<lambda>w. if doc_id w = doc_id ?c' then ?c' else w) (users st)"
        unfolding eq' by simp
      moreover have "doc_id ?c' = user_id rq" "profileUpdates ?c' = profileUpdates c @ fst ?nm"
        by (simp_all add: id)
      ultimately show ?thesis using c nameQ by blast
    next
      case True
      then obtain e where e: "body_email rq = Some e" "e \<noteq> []" "e \<noteq> email c" by blast
      let ?entry = "\<lparr>field = ''email'', oldValue = email c, newValue = e, updatedAt = newDate ev\<rparr>"
      let ?ups = "fst ?nm @ [?entry]"
      let ?c' = "(snd ?nm)\<lparr>email := castEmail ev e, emailVerified := False,
                   profileUpdates := profileUpdates c @ ?ups\<rparr>"
      from e have eq': "updateProfile tr ev rq st
          = updateProfile_email tr ev e (fst ?nm) (snd ?nm) st"
        unfolding eq by simp
      from changed have "users (updateProfile tr ev rq st)
          = map (\<lambda>w. if doc_id w = doc_id ?c' then ?c' else w) (users st)"
        unfolding eq' updateProfile_email_cases updateProfile_persist_cases
        by (simp add: step_defs split: if_splits)
      moreover have "doc_id ?c' = user_id rq" "profileUpdates ?c' = profileUpdates c @ ?ups"
        by (simp_all add: id)
      moreover have "\<forall>p \<in> set ?ups. ?Q p" using nameQ e by simp
      ultimately show ?thesis using c by blast
    qed
  qed
qed

lemma updateProfile_no_mail:
  "filter is_mail (effects (updateProfile None ev rq st)) = filter is_mail (effects st)"
proof (cases "errors rq = [] \<and> \<not> fails ev OpFindById \<and> findById (user_id rq) (users st) \<noteq> None")
  case False
  from updateProfile_early [OF this, of None] show ?thesis by auto
next
  case True
  then obtain c where c: "findById (user_id rq) (users st) = Some c" by auto
  from True have "errors rq = []" "\<not> fails ev OpFindById" by simp_all
  note eq = updateProfile_unfold [OF this c, of None]
  show ?thesis
    unfolding eq updateProfile_email_cases updateProfile_persist_cases
    by (simp add: step_defs notify_uninitialized split: option.splits)
qed

lemma updateProfile_eval:
  "updateProfile transporter env0 email_req st0 =
     \<lparr>users = [alice\<lparr>name := ''Alicia'', email := ''alicia@x.com'', emailVerified := False,
                  profileUpdates :=
                    [\<lparr>field = ''name'', oldValue = ''Alice'', newValue = ''Alicia'',
                       updatedAt = 1700000000000\<rparr>,
                     \<lparr>field = ''email'', oldValue = ''a@x.com'', newValue = ''alicia@x.com'',
                       updatedAt = 1700000000000\<rparr>]\<rparr>, bob],
      tokens = tokens st0 @
        [\<lparr>user = 1, tokenId = None, tokenHash = Some ''sha256:5ecr3t'', type = Verify,
          expiresAt = 1700086400005, revoked = False, used = False\<rparr>],
      effects =
        [TokenCreated \<lparr>user = 1, tokenId = None, tokenHash = Some ''sha256:5ecr3t'', type = Verify,
           expiresAt = 1700086400005, revoked = False, used = False\<rparr>,
         ConsoleError [LStr ''Error: Transporter is not initialized.''],
         UserSaved (alice\<lparr>name := ''Alicia'', email := ''alicia@x.com'', emailVerified := False,
                  profileUpdates :=
                    [\<lparr>field = ''name'', oldValue = ''Alice'', newValue = ''Alicia'',
                       updatedAt = 1700000000000\<rparr>,
                     \<lparr>field = ''email'', oldValue = ''a@x.com'', newValue = ''alicia@x.com'',
                       updatedAt = 1700000000000\<rparr>]\<rparr>),
         Responded 200 (Message ''Profile updated'')]\<rparr>"
  by (simp add: updateProfile_def updateProfile_name_def updateProfile_email_def
      updateProfile_persist_def email_req_def eval_defs)

section \<open>Properties of the specification\<close>

text \<open>
  C1. After a successful \<open>changePassword\<close> every Token record of type refresh owned by the
  account is revoked, however many there were: the request ended with the response
  200 "Password updated", and in the store it leaves, each token whose \<open>user\<close> is the
  caller and whose \<open>type\<close> is refresh has \<open>revoked = true\<close>.
\<close>

theorem changePassword_revokes_every_refresh_session:
  assumes "outcome (changePassword tr ev rq st) = Some (Responded 200 (Message ''Password updated''))"
  shows "\<forall>t \<in> set (tokens (changePassword tr ev rq st)).
           user t = user_id rq \<and> type t = Refresh \<longrightarrow> revoked t"
proof -
  from changePassword_success [OF assms] obtain u cp where
    u: "findById (user_id rq) (users st) = Some u"
    and eq: "changePassword tr ev rq st = changePassword_apply tr ev (body_newPassword rq) u st"
    by blast
  from assms eq have "outcome (changePassword_apply tr ev (body_newPassword rq) u st)
      = Some (Responded 200 (Message ''Password updated''))" by simp
  from changePassword_apply_success [OF this] obtain np where
    np: "body_newPassword rq = Some np"
    and ok: "\<not> fails ev OpHash" "\<not> fails ev OpSave" "\<not> fails ev OpUpdateMany"
    by blast
  have id: "doc_id u = user_id rq" using findById_SomeD [OF u] by simp
  show ?thesis
    unfolding eq np changePassword_apply_ok [OF ok]
    by (auto simp: step_defs id)
qed

text \<open>
  With the two active refresh sessions R1 and R2 of the example: both are revoked, the
  reset token and the other account's session are as they were.
\<close>

theorem changePassword_revokes_every_refresh_session_witness:
  "outcome (changePassword transporter env0 password_req st0)
     = Some (Responded 200 (Message ''Password updated''))
   \<and> list_all revoked
        (filter (\<lambda>t. user t = user_id password_req \<and> type t = Refresh)
           (tokens (changePassword transporter env0 password_req st0)))
   \<and> map revoked (tokens st0) = [False, False, False, False]
   \<and> map revoked (tokens (changePassword transporter env0 password_req st0))
       = [True, True, False, False]"
proof -
  have h: "outcome (changePassword transporter env0 password_req st0)
     = Some (Responded 200 (Message ''Password updated''))"
    by (simp add: changePassword_eval outcome_def)
  have c: "map revoked (tokens st0) = [False, False, False, False]"
    "map revoked (tokens (changePassword transporter env0 password_req st0))
       = [True, True, False, False]"
    by (simp_all add: changePassword_eval) (simp_all add: eval_defs)
  from changePassword_revokes_every_refresh_session [OF h]
  have "list_all revoked
        (filter (\<lambda>t. user t = user_id password_req \<and> type t = Refresh)
           (tokens (changePassword transporter env0 password_req st0)))"
    unfolding list_all_iff by simp
  with h c show ?thesis by blast
qed

text \<open>
  C2. In every successful execution of \<open>changePassword\<close> and of \<open>softDeleteProfile\<close> the
  bulk revocation is complete before the success response is produced. The success
  response is the last step, taken from a state \<open>s\<close> whose effects since the start of
  the request contain the completed \<open>updateMany\<close> for the caller (refresh tokens for
  \<open>changePassword\<close>, all tokens for \<open>softDeleteProfile\<close>), with no response before or
  after it, and in whose store the matching tokens are all revoked.
\<close>

theorem revocation_precedes_success_response:
  "(outcome (changePassword tr ev rq st) = Some (Responded 200 b) \<longrightarrow>
      (\<exists>s pre post. changePassword tr ev rq st = respond 200 b s
         \<and> effects s = effects st @ pre @ TokensUpdated (ByUserType (user_id rq) Refresh) # post
         \<and> list_all (\<lambda>e. \<not> is_response e) (pre @ post)
         \<and> (\<forall>t \<in> set (tokens s). user t = user_id rq \<and> type t = Refresh \<longrightarrow> revoked t)))
 \<and> (outcome (softDeleteProfile tr ev rq st) = Some (Responded 200 b) \<longrightarrow>
      (\<exists>s pre post. softDeleteProfile tr ev rq st = respond 200 b s
         \<and> effects s = effects st @ pre @ TokensUpdated (ByUser (user_id rq)) # post
         \<and> list_all (\<lambda>e. \<not> is_response e) (pre @ post)
         \<and> (\<forall>t \<in> set (tokens s). user t = user_id rq \<longrightarrow> revoked t)))"
proof (intro conjI impI)
  assume a: "outcome (changePassword tr ev rq st) = Some (Responded 200 b)"
  from changePassword_success_state [OF a] obtain u np where
    u: "findById (user_id rq) (users st) = Some u" and b: "b = Message ''Password updated''"
    and eq: "changePassword tr ev rq st =
    respond 200 (Message ''Password updated'')
      ((updateMany (ByUserType (doc_id u) Refresh) (save (with_new_password ev np u) st))
       \<lparr>effects := effects st @
          [UserSaved (with_new_password ev np u), TokensUpdated (ByUserType (doc_id u) Refresh)]
          @ notify_effects tr ev (password_mail (with_new_password ev np u))\<rparr>)"
      (is "_ = respond _ _ ?s")
    by blast
  have id: "doc_id u = user_id rq" using findById_SomeD [OF u] by simp
  have 1: "effects ?s = effects st @ [UserSaved (with_new_password ev np u)]
      @ TokensUpdated (ByUserType (user_id rq) Refresh)
      # notify_effects tr ev (password_mail (with_new_password ev np u))"
      (is "_ = _ @ ?pre @ _ # ?post")
    by (simp add: id)
  have 2: "list_all (\<lambda>e. \<not> is_response e) (?pre @ ?post)"
    by (auto simp: list_all_iff dest: notify_no_response)
  have 3: "\<forall>t \<in> set (tokens ?s). user t = user_id rq \<and> type t = Refresh \<longrightarrow> revoked t"
    by (auto simp: step_defs id)
  from eq b 1 2 3
  show "\<exists>s pre post. changePassword tr ev rq st = respond 200 b s
         \<and> effects s = effects st @ pre @ TokensUpdated (ByUserType (user_id rq) Refresh) # post
         \<and> list_all (\<lambda>e. \<not> is_response e) (pre @ post)
         \<and> (\<forall>t \<in> set (tokens s). user t = user_id rq \<and> type t = Refresh \<longrightarrow> revoked t)"
    by blast
next
  assume a: "outcome (softDeleteProfile tr ev rq st) = Some (Responded 200 b)"
  from softDeleteProfile_success [OF a] obtain u where
    ok: "\<not> fails ev OpFindById" "findById (user_id rq) (users st) = Some u" "\<not> isDeleted u"
      "\<not> fails ev OpSave" "\<not> fails ev OpUpdateMany" and b: "b = Message ''Account deactivated''"
    by blast
  note eq = softDeleteProfile_ok [OF ok, of tr]
  let ?s = "(updateMany (ByUser (doc_id u)) (save (u\<lparr>isDeleted := True\<rparr>) st))
       \<lparr>effects := effects st @ [UserSaved (u\<lparr>isDeleted := True\<rparr>), TokensUpdated (ByUser (doc_id u))]
          @ notify_effects tr ev (deactivated_mail (u\<lparr>isDeleted := True\<rparr>))\<rparr>"
  have id: "doc_id u = user_id rq" using findById_SomeD [OF ok(2)] by simp
  have 1: "effects ?s = effects st @ [UserSaved (u\<lparr>isDeleted := True\<rparr>)]
      @ TokensUpdated (ByUser (user_id rq))
      # notify_effects tr ev (deactivated_mail (u\<lparr>isDeleted := True\<rparr>))"
    (is "_ = _ @ ?pre @ _ # ?post")
    by (simp add: id)
  have 2: "list_all (\<lambda>e. \<not> is_response e) (?pre @ ?post)"
    by (auto simp: list_all_iff dest: notify_no_response)
  have 3: "\<forall>t \<in> set (tokens ?s). user t = user_id rq \<longrightarrow> revoked t"
    by (auto simp: step_defs id)
  from eq b 1 2 3
  show "\<exists>s pre post. softDeleteProfile tr ev rq st = respond 200 b s
         \<and> effects s = effects st @ pre @ TokensUpdated (ByUser (user_id rq)) # post
         \<and> list_all (\<lambda>e. \<not> is_response e) (pre @ post)
         \<and> (\<forall>t \<in> set (tokens s). user t = user_id rq \<longrightarrow> revoked t)"
    by blast
qed

text \<open>The password change and the deactivation of the example account.\<close>

theorem revocation_precedes_success_response_witness:
  "outcome (changePassword transporter env0 password_req st0)
      = Some (Responded 200 (Message ''Password updated''))
   \<and> (\<exists>s pre post. changePassword transporter env0 password_req st0
           = respond 200 (Message ''Password updated'') s
         \<and> effects s = effects st0 @ pre @ TokensUpdated (ByUserType (user_id password_req) Refresh) # post
         \<and> list_all (\<lambda>e. \<not> is_response e) (pre @ post)
         \<and> (\<forall>t \<in> set (tokens s). user t = user_id password_req \<and> type t = Refresh \<longrightarrow> revoked t))
   \<and> outcome (softDeleteProfile transporter env0 delete_req st0)
      = Some (Responded 200 (Message ''Account deactivated''))
   \<and> (\<exists>s pre post. softDeleteProfile transporter env0 delete_req st0
           = respond 200 (Message ''Account deactivated'') s
         \<and> effects s = effects st0 @ pre @ TokensUpdated (ByUser (user_id delete_req)) # post
         \<and> list_all (\<lambda>e. \<not> is_response e) (pre @ post)
         \<and> (\<forall>t \<in> set (tokens s). user t = user_id delete_req \<longrightarrow> revoked t))"
proof -
  have h1: "outcome (changePassword transporter env0 password_req st0)
      = Some (Responded 200 (Message ''Password updated''))"
    by (simp add: changePassword_eval outcome_def)
  have h2: "outcome (softDeleteProfile transporter env0 delete_req st0)
      = Some (Responded 200 (Message ''Account deactivated''))"
    by (simp add: softDeleteProfile_eval outcome_def)
  from revocation_precedes_success_response [of transporter env0 password_req st0 "Message ''Password updated''"] h1
    revocation_precedes_success_response [of transporter env0 delete_req st0 "Message ''Account deactivated''"] h2
  show ?thesis by blast
qed

text \<open>
  C3. When \<open>updateProfile\<close> changes the account's email (the request's email is non-empty
  and differs from the stored one, and the request ends with 200 "Profile updated"),
  the stored account has the new email and \<open>emailVerified = false\<close>, and exactly one token
  record is appended to the store: of type verify, holding \<open>hashToken\<close> of the generated
  raw secret and the expiry, and nothing else of the secret.

  The raw secret goes nowhere but into the verification mail handed to \<open>sendEmail\<close>,
  whose text and HTML carry it in the link. Every effect of the request is written out:
  \<^item> with the module as it is (\<open>transporter\<close> null) the effects are the creation of the
    record, the line "Error: Transporter is not initialized.", the save of the account
    and the response; none of them holds the secret, and nothing is delivered;
  \<^item> with a transporter, \<open>sendEmail\<close> prints the mail on the server console and hands it
    to \<open>sendMail\<close>; the record, the saved account and the response are the same.

  In both cases what the request sends out is the mail, when there is a transporter, and
  the response, which is the constant message.
\<close>

theorem updateProfile_email_change_issues_hashed_token:
  fixes tr ev rq st u e
  defines "tok \<equiv> \<lparr>user = user_id rq, tokenId = None,
                   tokenHash = Some (hashToken ev (genRandomToken ev)), type = Verify,
                   expiresAt = dateNow ev + 24 * 60 * 60 * 1000, revoked = False, used = False\<rparr>"
    and "u' \<equiv> (snd (updateProfile_name ev (body_name rq) u))
                 \<lparr>email := castEmail ev e, emailVerified := False,
                  profileUpdates := profileUpdates u @ fst (updateProfile_name ev (body_name rq) u)
                    @ [\<lparr>field = ''email'', oldValue = email u, newValue = e,
                        updatedAt = newDate ev\<rparr>]\<rparr>"
    and "opts \<equiv> \<lparr>mo_from = EMAIL_FROM ev, mo_to = e, mo_subject = ''Verify your new email'',
                  mo_text = ''Please verify your new email: ''
                    @ (case BASE_URL ev of None \<Rightarrow> ''undefined'' | Some b \<Rightarrow> b)
                    @ ''/api/auth/verify-email?token='' @ genRandomToken ev
                    @ ''&email='' @ encodeURIComponent ev e,
                  mo_html = ''<p>Please verify your email by clicking <a href=\"''
                    @ (case BASE_URL ev of None \<Rightarrow> ''undefined'' | Some b \<Rightarrow> b)
                    @ ''/api/auth/verify-email?token='' @ genRandomToken ev
                    @ ''&email='' @ encodeURIComponent ev e
                    @ ''\">here</a></p>''\<rparr>"
  assumes "findById (user_id rq) (users st) = Some u" and "body_email rq = Some e"
    and "e \<noteq> []" and "e \<noteq> email u"
    and "outcome (updateProfile tr ev rq st) = Some (Responded 200 (Message ''Profile updated''))"
  shows "findById (user_id rq) (users (updateProfile tr ev rq st)) = Some u'
     \<and> \<not> emailVerified u'
     \<and> tokens (updateProfile tr ev rq st) = tokens st @ [tok]
     \<and> (tr = transporter \<longrightarrow>
          effects (updateProfile tr ev rq st) =
            effects st @
              [TokenCreated tok,
               ConsoleError [LStr ''Error: Transporter is not initialized.''],
               UserSaved u',
               Responded 200 (Message ''Profile updated'')])
     \<and> (\<forall>t. tr = Some t \<longrightarrow>
          effects (updateProfile tr ev rq st) =
            effects st @
              [TokenCreated tok,
               ConsoleLog [LStr ''Email settings:''],
               ConsoleLog [LStr ''To:'', LStr e],
               ConsoleLog [LStr ''Subject:'', LStr ''Verify your new email''],
               ConsoleLog [LStr ''Text:'', LStr (mo_text opts)],
               ConsoleLog [LStr ''HTML:'', LStr (mo_html opts)],
               ConsoleLog [LStr ''Mail options:''],
               ConsoleLog [LMail opts],
               MailAttempt opts,
               (case t opts of
                  Inl err \<Rightarrow> ConsoleError [LStr ''Error sending email:'', LErr (TransportError err)]
                | Inr info \<Rightarrow> ConsoleLog [LStr ''Email sent successfully:'', LStr info]),
               UserSaved u',
               Responded 200 (Message ''Profile updated'')])
     \<and> filter (\<lambda>x. is_mail x \<or> is_response x) (effects (updateProfile tr ev rq st)) =
         filter (\<lambda>x. is_mail x \<or> is_response x) (effects st)
           @ (case tr of None \<Rightarrow> [] | Some t \<Rightarrow> [MailAttempt opts])
           @ [Responded 200 (Message ''Profile updated'')]"
proof -
  have pre: "errors rq = [] \<and> \<not> fails ev OpFindById \<and> findById (user_id rq) (users st) \<noteq> None"
  proof (rule ccontr)
    assume "\<not> ?thesis"
    from updateProfile_early [OF this, of tr] assms(8) show False
      by (auto simp: outcome_def)
  qed
  have id: "doc_id u = user_id rq" using findById_SomeD [OF assms(4)] by simp
  have eq: "updateProfile tr ev rq st =
      updateProfile_email tr ev e (fst (updateProfile_name ev (body_name rq) u))
        (snd (updateProfile_name ev (body_name rq) u)) st"
    using pre assms(4-7) by (simp add: updateProfile_unfold [of rq ev st u tr])
  from assms(8) have ok: "\<not> fails ev OpFindOne \<and> findOne_email ev e (users st) = None
      \<and> \<not> fails ev OpTokenCreate \<and> \<not> fails ev OpSave"
    unfolding eq by (rule updateProfile_email_success)
  have res: "updateProfile tr ev rq st =
      respond 200 (Message ''Profile updated'')
        (save u' (st\<lparr>tokens := tokens st @ [tok],
                     effects := effects st @ [TokenCreated tok]
                       @ notify_effects tr ev (verify_mail ev (genRandomToken ev) e)\<rparr>))"
    unfolding eq updateProfile_email_cases updateProfile_persist_cases
    using ok by (simp add: tok_def u'_def id)
  have none: "notify_effects None ev (verify_mail ev (genRandomToken ev) e)
      = [ConsoleError [LStr ''Error: Transporter is not initialized.'']]"
    by (rule notify_uninitialized)
  have some: "notify_effects (Some t) ev (verify_mail ev (genRandomToken ev) e)
      = [ConsoleLog [LStr ''Email settings:''],
         ConsoleLog [LStr ''To:'', LStr e],
         ConsoleLog [LStr ''Subject:'', LStr ''Verify your new email''],
         ConsoleLog [LStr ''Text:'', LStr (mo_text opts)],
         ConsoleLog [LStr ''HTML:'', LStr (mo_html opts)],
         ConsoleLog [LStr ''Mail options:''],
         ConsoleLog [LMail opts],
         MailAttempt opts,
         (case t opts of
            Inl err \<Rightarrow> ConsoleError [LStr ''Error sending email:'', LErr (TransportError err)]
          | Inr info \<Rightarrow> ConsoleLog [LStr ''Email sent successfully:'', LStr info])]" for t
    by (simp add: notify_effects_def sendEmail_def sendEmail_try_def verify_mail_def
        verifyUrl_def show_env_def opts_def Let_def split: sum.splits)
  have idu: "doc_id u' = user_id rq" by (simp add: u'_def id)
  have 1: "findById (user_id rq) (users (updateProfile tr ev rq st)) = Some u'"
    unfolding res using findById_replace [OF assms(4) idu] by (simp add: step_defs)
  have 2: "\<not> emailVerified u'" by (simp add: u'_def)
  have 3: "tokens (updateProfile tr ev rq st) = tokens st @ [tok]"
    unfolding res by (simp add: step_defs)
  have 4: "tr = transporter \<longrightarrow>
          effects (updateProfile tr ev rq st) =
            effects st @
              [TokenCreated tok,
               ConsoleError [LStr ''Error: Transporter is not initialized.''],
               UserSaved u',
               Responded 200 (Message ''Profile updated'')]"
    unfolding res transporter_def by (simp add: step_defs none)
  have 5: "\<forall>t. tr = Some t \<longrightarrow>
          effects (updateProfile tr ev rq st) =
            effects st @
              [TokenCreated tok,
               ConsoleLog [LStr ''Email settings:''],
               ConsoleLog [LStr ''To:'', LStr e],
               ConsoleLog [LStr ''Subject:'', LStr ''Verify your new email''],
               ConsoleLog [LStr ''Text:'', LStr (mo_text opts)],
               ConsoleLog [LStr ''HTML:'', LStr (mo_html opts)],
               ConsoleLog [LStr ''Mail options:''],
               ConsoleLog [LMail opts],
               MailAttempt opts,
               (case t opts of
                  Inl err \<Rightarrow> ConsoleError [LStr ''Error sending email:'', LErr (TransportError err)]
                | Inr info \<Rightarrow> ConsoleLog [LStr ''Email sent successfully:'', LStr info]),
               UserSaved u',
               Responded 200 (Message ''Profile updated'')]"
    unfolding res by (simp add: step_defs some)
  have 6: "filter (\<lambda>x. is_mail x \<or> is_response x) (effects (updateProfile tr ev rq st)) =
         filter (\<lambda>x. is_mail x \<or> is_response x) (effects st)
           @ (case tr of None \<Rightarrow> [] | Some t \<Rightarrow> [MailAttempt opts])
           @ [Responded 200 (Message ''Profile updated'')]"
  proof (cases tr)
    case None
    then show ?thesis unfolding res by (simp add: step_defs none)
  next
    case (Some t)
    then show ?thesis unfolding res by (simp add: step_defs some split: sum.splits)
  qed
  from 1 2 3 4 5 6 show ?thesis by blast
qed

text \<open>
  The example account changes its name and its email, first with the module as it is,
  then with a transporter that delivers: the token record holds the hash, the link in
  the mail holds the secret, and without a transporter the secret is in no effect.
\<close>

theorem updateProfile_email_change_issues_hashed_token_witness:
  "findById (user_id email_req) (users st0) = Some alice
   \<and> body_email email_req = Some ''alicia@x.com''
   \<and> ''alicia@x.com'' \<noteq> [] \<and> ''alicia@x.com'' \<noteq> email alice
   \<and> outcome (updateProfile transporter env0 email_req st0)
       = Some (Responded 200 (Message ''Profile updated''))
   \<and> outcome (updateProfile (Some working_transport) env0 email_req st0)
       = Some (Responded 200 (Message ''Profile updated''))
   \<and> map_option emailVerified (findById 1 (users (updateProfile transporter env0 email_req st0)))
       = Some False
   \<and> map_option email (findById 1 (users (updateProfile transporter env0 email_req st0)))
       = Some ''alicia@x.com''
   \<and> tokens (updateProfile transporter env0 email_req st0) = tokens st0 @
        [\<lparr>user = 1, tokenId = None, tokenHash = Some ''sha256:5ecr3t'', type = Verify,
          expiresAt = 1700086400005, revoked = False, used = False\<rparr>]
   \<and> effects (updateProfile transporter env0 email_req st0) =
        [TokenCreated \<lparr>user = 1, tokenId = None, tokenHash = Some ''sha256:5ecr3t'',
           type = Verify, expiresAt = 1700086400005, revoked = False, used = False\<rparr>,
         ConsoleError [LStr ''Error: Transporter is not initialized.''],
         UserSaved (alice\<lparr>name := ''Alicia'', email := ''alicia@x.com'', emailVerified := False,
           profileUpdates :=
             [\<lparr>field = ''name'', oldValue = ''Alice'', newValue = ''Alicia'',
                updatedAt = 1700000000000\<rparr>,
              \<lparr>field = ''email'', oldValue = ''a@x.com'', newValue = ''alicia@x.com'',
                updatedAt = 1700000000000\<rparr>]\<rparr>),
         Responded 200 (Message ''Profile updated'')]
   \<and> filter (\<lambda>x. is_mail x \<or> is_response x)
        (effects (updateProfile (Some working_transport) env0 email_req st0)) =
        [MailAttempt
           \<lparr>mo_from = Some ''noreply@x.com'', mo_to = ''alicia@x.com'',
             mo_subject = ''Verify your new email'',
             mo_text = ''Please verify your new email: http://localhost:4000/api/auth/verify-email?token=5ecr3t&email=alicia%40x.com'',
             mo_html = ''<p>Please verify your email by clicking <a href=\"http://localhost:4000/api/auth/verify-email?token=5ecr3t&email=alicia%40x.com\">here</a></p>''\<rparr>,
         Responded 200 (Message ''Profile updated'')]
   \<and> tokens (updateProfile (Some working_transport) env0 email_req st0)
       = tokens (updateProfile transporter env0 email_req st0)
   \<and> users (updateProfile (Some working_transport) env0 email_req st0)
       = users (updateProfile transporter env0 email_req st0)"
proof -
  have h: "findById (user_id email_req) (users st0) = Some alice"
    "body_email email_req = Some ''alicia@x.com''"
    "''alicia@x.com'' \<noteq> []" "''alicia@x.com'' \<noteq> email alice"
    by (simp_all add: email_req_def eval_defs)
  have o1: "outcome (updateProfile transporter env0 email_req st0)
       = Some (Responded 200 (Message ''Profile updated''))"
    by (simp add: updateProfile_eval outcome_def)
  have w: "updateProfile (Some working_transport) env0 email_req st0
      = (updateProfile transporter env0 email_req st0)
          \<lparr>effects := effects (updateProfile (Some working_transport) env0 email_req st0)\<rparr>"
    "outcome (updateProfile (Some working_transport) env0 email_req st0)
       = Some (Responded 200 (Message ''Profile updated''))"
    by (simp_all add: updateProfile_eval)
       (simp_all add: updateProfile_def updateProfile_name_def updateProfile_email_def
          updateProfile_persist_def email_req_def verify_mail_def verifyUrl_def eval_defs)
  note o2 = w(2)
  have same: "tokens (updateProfile (Some working_transport) env0 email_req st0)
       = tokens (updateProfile transporter env0 email_req st0)"
    "users (updateProfile (Some working_transport) env0 email_req st0)
       = users (updateProfile transporter env0 email_req st0)"
    by (subst w(1), simp)+
  note a = updateProfile_email_change_issues_hashed_token [OF h o1]
  note b = updateProfile_email_change_issues_hashed_token [OF h o2]
  from a have "map_option emailVerified
        (findById 1 (users (updateProfile transporter env0 email_req st0))) = Some False"
    "map_option email (findById 1 (users (updateProfile transporter env0 email_req st0)))
       = Some ''alicia@x.com''"
    "tokens (updateProfile transporter env0 email_req st0) = tokens st0 @
        [\<lparr>user = 1, tokenId = None, tokenHash = Some ''sha256:5ecr3t'', type = Verify,
          expiresAt = 1700086400005, revoked = False, used = False\<rparr>]"
    "effects (updateProfile transporter env0 email_req st0) =
        [TokenCreated \<lparr>user = 1, tokenId = None, tokenHash = Some ''sha256:5ecr3t'',
           type = Verify, expiresAt = 1700086400005, revoked = False, used = False\<rparr>,
         ConsoleError [LStr ''Error: Transporter is not initialized.''],
         UserSaved (alice\<lparr>name := ''Alicia'', email := ''alicia@x.com'', emailVerified := False,
           profileUpdates :=
             [\<lparr>field = ''name'', oldValue = ''Alice'', newValue = ''Alicia'',
                updatedAt = 1700000000000\<rparr>,
              \<lparr>field = ''email'', oldValue = ''a@x.com'', newValue = ''alicia@x.com'',
                updatedAt = 1700000000000\<rparr>]\<rparr>),
         Responded 200 (Message ''Profile updated'')]"
    by (simp_all add: email_req_def env0_def st0_def updateProfile_name_def alice_def)
  moreover from b have "filter (\<lambda>x. is_mail x \<or> is_response x)
        (effects (updateProfile (Some working_transport) env0 email_req st0)) =
        [MailAttempt
           \<lparr>mo_from = Some ''noreply@x.com'', mo_to = ''alicia@x.com'',
             mo_subject = ''Verify your new email'',
             mo_text = ''Please verify your new email: http://localhost:4000/api/auth/verify-email?token=5ecr3t&email=alicia%40x.com'',
             mo_html = ''<p>Please verify your email by clicking <a href=\"http://localhost:4000/api/auth/verify-email?token=5ecr3t&email=alicia%40x.com\">here</a></p>''\<rparr>,
         Responded 200 (Message ''Profile updated'')]"
    by (simp add: email_req_def env0_def st0_def working_transport_def)
  ultimately show ?thesis using h o1 o2 same by blast
qed

text \<open>
  C4. After a successful \<open>softDeleteProfile\<close> (response 200 "Account deactivated") the
  stored account has \<open>isDeleted = true\<close> and every Token record owned by the account,
  of any type, has \<open>revoked = true\<close>.
\<close>

theorem softDeleteProfile_revokes_all_tokens:
  assumes "outcome (softDeleteProfile tr ev rq st) = Some (Responded 200 (Message ''Account deactivated''))"
  shows "(\<exists>u. findById (user_id rq) (users (softDeleteProfile tr ev rq st)) = Some u \<and> isDeleted u)
    \<and> (\<forall>t \<in> set (tokens (softDeleteProfile tr ev rq st)). user t = user_id rq \<longrightarrow> revoked t)"
proof -
  from softDeleteProfile_success [OF assms] obtain u where
    ok: "\<not> fails ev OpFindById" "findById (user_id rq) (users st) = Some u" "\<not> isDeleted u"
      "\<not> fails ev OpSave" "\<not> fails ev OpUpdateMany"
    by blast
  have id: "doc_id u = user_id rq" using findById_SomeD [OF ok(2)] by simp
  have "findById (user_id rq) (users (softDeleteProfile tr ev rq st)) = Some (u\<lparr>isDeleted := True\<rparr>)"
    unfolding softDeleteProfile_ok [OF ok]
    using findById_replace [OF ok(2), of "u\<lparr>isDeleted := True\<rparr>"] id
    by (simp add: step_defs)
  moreover have "\<forall>t \<in> set (tokens (softDeleteProfile tr ev rq st)). user t = user_id rq \<longrightarrow> revoked t"
    unfolding softDeleteProfile_ok [OF ok] by (auto simp: step_defs id)
  ultimately show ?thesis by simp
qed

text \<open>Two refresh sessions and a reset token of the account, one session of another.\<close>

theorem softDeleteProfile_revokes_all_tokens_witness:
  "outcome (softDeleteProfile transporter env0 delete_req st0)
     = Some (Responded 200 (Message ''Account deactivated''))
   \<and> (\<exists>u. findById (user_id delete_req) (users (softDeleteProfile transporter env0 delete_req st0)) = Some u
          \<and> isDeleted u)
   \<and> list_all revoked (filter (\<lambda>t. user t = user_id delete_req)
         (tokens (softDeleteProfile transporter env0 delete_req st0)))
   \<and> map type (tokens st0) = [Refresh, Refresh, Reset, Refresh]
   \<and> map revoked (tokens (softDeleteProfile transporter env0 delete_req st0))
       = [True, True, True, False]"
proof -
  have h: "outcome (softDeleteProfile transporter env0 delete_req st0)
     = Some (Responded 200 (Message ''Account deactivated''))"
    by (simp add: softDeleteProfile_eval outcome_def)
  have c: "map type (tokens st0) = [Refresh, Refresh, Reset, Refresh]"
    "map revoked (tokens (softDeleteProfile transporter env0 delete_req st0))
       = [True, True, True, False]"
    by (simp_all add: softDeleteProfile_eval) (simp_all add: eval_defs)
  from softDeleteProfile_revokes_all_tokens [OF h]
  have "(\<exists>u. findById (user_id delete_req) (users (softDeleteProfile transporter env0 delete_req st0)) = Some u
          \<and> isDeleted u)"
    and "list_all revoked (filter (\<lambda>t. user t = user_id delete_req)
         (tokens (softDeleteProfile transporter env0 delete_req st0)))"
    unfolding list_all_iff by simp_all
  with h c show ?thesis by blast
qed

text \<open>
  C5. \<open>sendEmail\<close> never throws: for every value of the module variable (no transporter,
  or one whose \<open>sendMail\<close> throws or delivers), every environment and every message it
  returns normally. So \<open>changePassword\<close>, once the account is found, active, the current
  password matches and no store or bcrypt call rejects, answers 200 "Password updated"
  with the new hash stored, whatever the transporter does.
\<close>

theorem sendEmail_never_throws:
  "fst (sendEmail tr ev m es) = Inr ()
   \<and> (errors rq = [] \<and> (\<forall>x. \<not> fails ev x) \<and> findById (user_id rq) (users st) = Some u
        \<and> \<not> isDeleted u \<and> body_currentPassword rq = Some cp \<and> bcrypt_compare ev cp (password u)
        \<and> body_newPassword rq = Some np
      \<longrightarrow> outcome (changePassword tr ev rq st) = Some (Responded 200 (Message ''Password updated''))
        \<and> findById (user_id rq) (users (changePassword tr ev rq st)) = Some (with_new_password ev np u))"
proof (intro conjI impI)
  show "fst (sendEmail tr ev m es) = Inr ()" by (rule sendEmail_returns)
next
  assume a: "errors rq = [] \<and> (\<forall>x. \<not> fails ev x) \<and> findById (user_id rq) (users st) = Some u
        \<and> \<not> isDeleted u \<and> body_currentPassword rq = Some cp \<and> bcrypt_compare ev cp (password u)
        \<and> body_newPassword rq = Some np"
  then have eq: "changePassword tr ev rq st =
    respond 200 (Message ''Password updated'')
      ((updateMany (ByUserType (doc_id u) Refresh) (save (with_new_password ev np u) st))
       \<lparr>effects := effects st @
          [UserSaved (with_new_password ev np u), TokensUpdated (ByUserType (doc_id u) Refresh)]
          @ notify_effects tr ev (password_mail (with_new_password ev np u))\<rparr>)"
    by (intro changePassword_ok) auto
  show "outcome (changePassword tr ev rq st) = Some (Responded 200 (Message ''Password updated''))"
    unfolding eq by (rule outcome_respond)
  from a have u: "findById (user_id rq) (users st) = Some u" by simp
  have id: "doc_id u = user_id rq" using findById_SomeD [OF u] by simp
  show "findById (user_id rq) (users (changePassword tr ev rq st)) = Some (with_new_password ev np u)"
    unfolding eq using findById_replace [OF u, of "with_new_password ev np u"] id
    by (simp add: step_defs)
qed


text \<open>With a transporter whose \<open>sendMail\<close> throws, the delivery is attempted, the failure
  is logged, and the password change still succeeds.\<close>

theorem sendEmail_never_throws_witness:
  "fst (sendEmail (Some broken_transport) env0 (password_mail alice) []) = Inr ()
   \<and> errors password_req = [] \<and> (\<forall>x. \<not> fails env0 x)
   \<and> findById (user_id password_req) (users st0) = Some alice
   \<and> \<not> isDeleted alice \<and> body_currentPassword password_req = Some ''OldPass123!''
   \<and> bcrypt_compare env0 ''OldPass123!'' (password alice)
   \<and> body_newPassword password_req = Some ''NewPass456!''
   \<and> outcome (changePassword (Some broken_transport) env0 password_req st0)
        = Some (Responded 200 (Message ''Password updated''))
   \<and> findById (user_id password_req)
        (users (changePassword (Some broken_transport) env0 password_req st0))
        = Some (with_new_password env0 ''NewPass456!'' alice)
   \<and> ConsoleError [LStr ''Error sending email:'', LErr (TransportError ''ECONNREFUSED'')]
        \<in> set (notify_effects (Some broken_transport) env0 (password_mail alice))"
proof -
  have h: "errors password_req = [] \<and> (\<forall>x. \<not> fails env0 x)
      \<and> findById (user_id password_req) (users st0) = Some alice
      \<and> \<not> isDeleted alice \<and> body_currentPassword password_req = Some ''OldPass123!''
      \<and> bcrypt_compare env0 ''OldPass123!'' (password alice)
      \<and> body_newPassword password_req = Some ''NewPass456!''"
    by (simp add: password_req_def eval_defs)
  have l: "ConsoleError [LStr ''Error sending email:'', LErr (TransportError ''ECONNREFUSED'')]
        \<in> set (notify_effects (Some broken_transport) env0 (password_mail alice))"
    by (simp add: eval_defs)
  from sendEmail_never_throws [of "Some broken_transport" env0 "password_mail alice" "[]"
      password_req st0 alice "''OldPass123!''" "''NewPass456!''"] h l
  show ?thesis by blast
qed

text \<open>
  C6. An \<open>updateProfile\<close> request of an existing caller asks for an email that is non-empty
  and differs from the caller's, and the store's lookup by that email finds a record.
  Then the users and the tokens in the store are exactly as before and the request has
  a single effect, its ending; when validation passed and the two lookups did not
  reject, that ending is the response 400 "Email already in use". No field is saved, no
  audit entry is appended, no verify token is created, also for a name sent along.
\<close>

theorem updateProfile_email_in_use_changes_nothing:
  assumes "findById (user_id rq) (users st) = Some u" and "body_email rq = Some e"
    and "e \<noteq> []" and "e \<noteq> email u" and "findOne_email ev e (users st) \<noteq> None"
  shows "users (updateProfile tr ev rq st) = users st
     \<and> tokens (updateProfile tr ev rq st) = tokens st
     \<and> (\<exists>x. effects (updateProfile tr ev rq st) = effects st @ [x])
     \<and> (errors rq = [] \<and> \<not> fails ev OpFindById \<and> \<not> fails ev OpFindOne \<longrightarrow>
          effects (updateProfile tr ev rq st)
            = effects st @ [Responded 400 (Message ''Email already in use'')])"
proof (cases "errors rq = [] \<and> \<not> fails ev OpFindById")
  case False
  then have "\<not> (errors rq = [] \<and> \<not> fails ev OpFindById \<and> findById (user_id rq) (users st) \<noteq> None)"
    by simp
  from updateProfile_early [OF this, of tr] False show ?thesis by auto
next
  case True
  then have "updateProfile tr ev rq st =
      (if fails ev OpFindOne then next_err (Fault OpFindOne) st
       else respond 400 (Message ''Email already in use'') st)"
    using assms by (simp add: updateProfile_unfold [of rq ev st u tr] updateProfile_email_cases)
  then show ?thesis by (simp add: respond_def next_err_def)
qed


text \<open>The example account asks for the email of the other account, with a new name.\<close>

theorem updateProfile_email_in_use_changes_nothing_witness:
  "findById (user_id taken_email_req) (users st0) = Some alice
   \<and> body_email taken_email_req = Some ''b@x.com''
   \<and> ''b@x.com'' \<noteq> [] \<and> ''b@x.com'' \<noteq> email alice
   \<and> findOne_email env0 ''b@x.com'' (users st0) \<noteq> None
   \<and> errors taken_email_req = [] \<and> \<not> fails env0 OpFindById \<and> \<not> fails env0 OpFindOne
   \<and> users (updateProfile transporter env0 taken_email_req st0) = users st0
   \<and> tokens (updateProfile transporter env0 taken_email_req st0) = tokens st0
   \<and> effects (updateProfile transporter env0 taken_email_req st0)
       = effects st0 @ [Responded 400 (Message ''Email already in use'')]"
proof -
  have h: "findById (user_id taken_email_req) (users st0) = Some alice"
    "body_email taken_email_req = Some ''b@x.com''"
    "''b@x.com'' \<noteq> []" "''b@x.com'' \<noteq> email alice"
    "findOne_email env0 ''b@x.com'' (users st0) \<noteq> None"
    by (simp_all add: taken_email_req_def eval_defs)
  have g: "errors taken_email_req = []" "\<not> fails env0 OpFindById" "\<not> fails env0 OpFindOne"
    by (simp_all add: taken_email_req_def env0_def)
  from updateProfile_email_in_use_changes_nothing [OF h, of transporter] h g
  show ?thesis by blast
qed

text \<open>
  C7, in the form the code satisfies. The audit log is append-only: for every execution of
  \<open>updateProfile\<close> and of \<open>changePassword\<close> and every stored account, the account is still
  stored afterwards and its \<open>profileUpdates\<close> is the sequence before followed by the
  appended entries. An entry appended by \<open>updateProfile\<close> records the changed field
  (name or email), its old value, the new value the request asked for, and the time of
  the request. The entry appended by \<open>changePassword\<close> records the field "password" and
  the time, and the mask "****" in place of both the old and the new value.
\<close>

theorem audit_log_is_extended:
  assumes "findById i (users st) = Some u"
  shows "(\<exists>u' ups. findById i (users (updateProfile tr ev rq st)) = Some u'
          \<and> profileUpdates u' = profileUpdates u @ ups
          \<and> (\<forall>p \<in> set ups. updatedAt p = newDate ev \<and> newValue p \<noteq> oldValue p
                \<and> (field p = ''name'' \<and> oldValue p = name u \<and> body_name rq = Some (newValue p)
                   \<or> field p = ''email'' \<and> oldValue p = email u \<and> body_email rq = Some (newValue p))))
     \<and> (\<exists>u' ups. findById i (users (changePassword tr ev rq st)) = Some u'
          \<and> profileUpdates u' = profileUpdates u @ ups
          \<and> (\<forall>p \<in> set ups. p = \<lparr>field = ''password'', oldValue = ''****'', newValue = ''****'',
                                   updatedAt = newDate ev\<rparr>))"
proof
  show "\<exists>u' ups. findById i (users (updateProfile tr ev rq st)) = Some u'
          \<and> profileUpdates u' = profileUpdates u @ ups
          \<and> (\<forall>p \<in> set ups. updatedAt p = newDate ev \<and> newValue p \<noteq> oldValue p
                \<and> (field p = ''name'' \<and> oldValue p = name u \<and> body_name rq = Some (newValue p)
                   \<or> field p = ''email'' \<and> oldValue p = email u \<and> body_email rq = Some (newValue p)))"
    by (rule audit_lift [where
          Q = "\<lambda>c p. updatedAt p = newDate ev \<and> newValue p \<noteq> oldValue p
                \<and> (field p = ''name'' \<and> oldValue p = name c \<and> body_name rq = Some (newValue p)
                   \<or> field p = ''email'' \<and> oldValue p = email c \<and> body_email rq = Some (newValue p))",
          OF assms updateProfile_users])
next
  show "\<exists>u' ups. findById i (users (changePassword tr ev rq st)) = Some u'
          \<and> profileUpdates u' = profileUpdates u @ ups
          \<and> (\<forall>p \<in> set ups. p = \<lparr>field = ''password'', oldValue = ''****'', newValue = ''****'',
                                   updatedAt = newDate ev\<rparr>)"
    by (rule audit_lift [where
          Q = "\<lambda>c p. p = \<lparr>field = ''password'', oldValue = ''****'', newValue = ''****'',
                                   updatedAt = newDate ev\<rparr>",
          OF assms changePassword_users])
qed


text \<open>The example account: two entries for the name and the email, one for the password.\<close>

theorem audit_log_is_extended_witness:
  "findById 1 (users st0) = Some alice
   \<and> (\<exists>u' ups. findById 1 (users (updateProfile transporter env0 email_req st0)) = Some u'
          \<and> profileUpdates u' = profileUpdates alice @ ups
          \<and> (\<forall>p \<in> set ups. updatedAt p = newDate env0 \<and> newValue p \<noteq> oldValue p
                \<and> (field p = ''name'' \<and> oldValue p = name alice
                      \<and> body_name email_req = Some (newValue p)
                   \<or> field p = ''email'' \<and> oldValue p = email alice
                      \<and> body_email email_req = Some (newValue p))))
   \<and> (\<exists>u' ups. findById 1 (users (changePassword transporter env0 password_req st0)) = Some u'
          \<and> profileUpdates u' = profileUpdates alice @ ups
          \<and> (\<forall>p \<in> set ups. p = \<lparr>field = ''password'', oldValue = ''****'', newValue = ''****'',
                                   updatedAt = newDate env0\<rparr>))
   \<and> map_option (map field \<circ> profileUpdates)
        (findById 1 (users (updateProfile transporter env0 email_req st0)))
       = Some [''name'', ''email'']
   \<and> map_option (map field \<circ> profileUpdates)
        (findById 1 (users (changePassword transporter env0 password_req st0)))
       = Some [''password'']"
proof -
  have h: "findById 1 (users st0) = Some alice" by (simp add: eval_defs)
  have c: "map_option (map field \<circ> profileUpdates)
        (findById 1 (users (updateProfile transporter env0 email_req st0)))
       = Some [''name'', ''email'']"
    "map_option (map field \<circ> profileUpdates)
        (findById 1 (users (changePassword transporter env0 password_req st0)))
       = Some [''password'']"
    by (simp_all add: updateProfile_eval changePassword_eval findById_def alice_def)
  from audit_log_is_extended [OF h, of transporter env0 email_req]
    audit_log_is_extended [OF h, of transporter env0 password_req] h c
  show ?thesis by blast
qed

text \<open>
  That every appended entry holds the old and the new value of its field does not hold
  for the entry of a password change. The stored password of
  the example account is the hash of the old password before and the hash of the new one
  after; the one entry appended holds neither.
\<close>

theorem audit_password_entry_is_masked:
  "map_option profileUpdates (findById 1 (users (changePassword transporter env0 password_req st0)))
     = Some [\<lparr>field = ''password'', oldValue = ''****'', newValue = ''****'',
               updatedAt = 1700000000000\<rparr>]
   \<and> map_option password (findById 1 (users st0)) = Some ''$2b$OldPass123!''
   \<and> map_option password (findById 1 (users (changePassword transporter env0 password_req st0)))
     = Some ''$2b$NewPass456!''
   \<and> ''****'' \<noteq> ''$2b$OldPass123!'' \<and> ''****'' \<noteq> ''$2b$NewPass456!''"
  by (simp add: changePassword_eval findById_def) (simp add: st0_def alice_def findById_def)

text \<open>
  C8. \<open>changePassword\<close> is atomic on error. Whenever it answers with an error status
  (404 account not found, 403 account deactivated, 400 current password incorrect, and
  also the 400 of a failed validation), the users and the tokens in the store are
  exactly as before, and the error response is the only effect of the request: nothing
  was saved, no token was revoked, \<open>sendEmail\<close> was not called.
\<close>

theorem changePassword_error_leaves_state:
  assumes "outcome (changePassword tr ev rq st) = Some (Responded c b)" and "c \<noteq> 200"
  shows "users (changePassword tr ev rq st) = users st
       \<and> tokens (changePassword tr ev rq st) = tokens st
       \<and> effects (changePassword tr ev rq st) = effects st @ [Responded c b]"
proof -
  have "changePassword tr ev rq st = respond c b st"
    using assms changePassword_apply_error [of tr ev "body_newPassword rq" _ st c b]
    unfolding changePassword_def
    by (auto simp: outcome_respond outcome_next_err split: if_splits option.splits)
  then show ?thesis by (simp add: respond_def)
qed

text \<open>A wrong current password: the answer is 400 and the store is untouched.\<close>

theorem changePassword_error_leaves_state_witness:
  "outcome (changePassword transporter env0 wrong_password_req st0)
     = Some (Responded 400 (Message ''Current password is incorrect''))
   \<and> (400::nat) \<noteq> 200
   \<and> users (changePassword transporter env0 wrong_password_req st0) = users st0
   \<and> tokens (changePassword transporter env0 wrong_password_req st0) = tokens st0
   \<and> effects (changePassword transporter env0 wrong_password_req st0)
       = effects st0 @ [Responded 400 (Message ''Current password is incorrect'')]"
proof -
  have h: "outcome (changePassword transporter env0 wrong_password_req st0)
     = Some (Responded 400 (Message ''Current password is incorrect''))"
    by (simp add: changePassword_def wrong_password_req_def eval_defs)
  have n: "(400::nat) \<noteq> 200" by simp
  from changePassword_error_leaves_state [OF h n] h n show ?thesis by blast
qed

text \<open>
  C9. The module variable \<open>transporter\<close> is null and nothing assigns it. So every call of
  \<open>sendEmail\<close> takes the first branch: it logs "Error: Transporter is not initialized."
  and returns, with no call of \<open>sendMail\<close>. No request handled by \<open>updateProfile\<close>,
  \<open>changePassword\<close> or \<open>softDeleteProfile\<close> adds a delivery attempt to the effects.
\<close>

theorem transporter_never_initialized:
  "transporter = None
   \<and> sendEmail transporter ev m es
       = (Inr (), es @ [ConsoleError [LStr ''Error: Transporter is not initialized.'']])
   \<and> filter is_mail (effects (updateProfile transporter ev rq st)) = filter is_mail (effects st)
   \<and> filter is_mail (effects (changePassword transporter ev rq st)) = filter is_mail (effects st)
   \<and> filter is_mail (effects (softDeleteProfile transporter ev rq st)) = filter is_mail (effects st)"
  unfolding transporter_def
  by (simp add: updateProfile_no_mail changePassword_no_mail softDeleteProfile_no_mail sendEmail_def)


text \<open>The three requests of the example account attempt no delivery.\<close>

theorem transporter_never_initialized_witness:
  "filter is_mail (effects (updateProfile transporter env0 email_req st0)) = []
   \<and> filter is_mail (effects (changePassword transporter env0 password_req st0)) = []
   \<and> filter is_mail (effects (softDeleteProfile transporter env0 delete_req st0)) = []
   \<and> sendEmail transporter env0 (password_mail alice) []
       = (Inr (), [ConsoleError [LStr ''Error: Transporter is not initialized.'']])"
proof -
  have e: "filter is_mail (effects st0) = []" by (simp add: st0_def)
  from transporter_never_initialized [of env0 "password_mail alice" "[]" email_req st0]
  have 1: "filter is_mail (effects (updateProfile transporter env0 email_req st0))
      = filter is_mail (effects st0)"
    and 4: "sendEmail transporter env0 (password_mail alice) []
       = (Inr (), [] @ [ConsoleError [LStr ''Error: Transporter is not initialized.'']])"
    by blast+
  from transporter_never_initialized [of env0 "password_mail alice" "[]" password_req st0]
  have 2: "filter is_mail (effects (changePassword transporter env0 password_req st0))
      = filter is_mail (effects st0)"
    by blast
  from transporter_never_initialized [of env0 "password_mail alice" "[]" delete_req st0]
  have 3: "filter is_mail (effects (softDeleteProfile transporter env0 delete_req st0))
      = filter is_mail (effects st0)"
    by blast
  from 1 2 3 4 e show ?thesis by simp
qed

text \<open>
  C10. Every token record that \<open>updateProfile\<close> adds to the store is a verify token that
  expires exactly 24 hours after the clock reading taken when it is issued:
  \<open>expiresAt = Date.now() + 24 * 60 * 60 * 1000\<close>. The offset is the same for every
  environment; no configuration value enters it.
\<close>

theorem verify_token_expires_after_24h:
  assumes "t \<in> set (tokens (updateProfile tr ev rq st))" and "t \<notin> set (tokens st)"
  shows "type t = Verify \<and> expiresAt t = dateNow ev + 24 * 60 * 60 * 1000"
  using assms updateProfile_tokens [of tr ev rq st] by auto


text \<open>The token issued for the email change of the example account.\<close>

theorem verify_token_expires_after_24h_witness:
  "\<lparr>user = 1, tokenId = None, tokenHash = Some ''sha256:5ecr3t'', type = Verify,
     expiresAt = 1700086400005, revoked = False, used = False\<rparr>
     \<in> set (tokens (updateProfile transporter env0 email_req st0))
   \<and> \<lparr>user = 1, tokenId = None, tokenHash = Some ''sha256:5ecr3t'', type = Verify,
     expiresAt = 1700086400005, revoked = False, used = False\<rparr> \<notin> set (tokens st0)
   \<and> type \<lparr>user = 1, tokenId = None, tokenHash = Some ''sha256:5ecr3t'', type = Verify,
     expiresAt = 1700086400005, revoked = False, used = False\<rparr> = Verify
   \<and> expiresAt \<lparr>user = 1, tokenId = None, tokenHash = Some ''sha256:5ecr3t'', type = Verify,
     expiresAt = 1700086400005, revoked = False, used = False\<rparr>
       = dateNow env0 + 24 * 60 * 60 * 1000"
proof -
  have h: "\<lparr>user = 1, tokenId = None, tokenHash = Some ''sha256:5ecr3t'', type = Verify,
     expiresAt = 1700086400005, revoked = False, used = False\<rparr>
     \<in> set (tokens (updateProfile transporter env0 email_req st0))"
    "\<lparr>user = 1, tokenId = None, tokenHash = Some ''sha256:5ecr3t'', type = Verify,
     expiresAt = 1700086400005, revoked = False, used = False\<rparr> \<notin> set (tokens st0)"
    by (simp_all add: updateProfile_eval) (simp_all add: eval_defs)
  from verify_token_expires_after_24h [OF h] h show ?thesis by blast
qed

end
